theory Spec2Isabelle
  imports Main "HOL-Library.Sublist"
begin

section \<open>Strings, numbers and JSON values of the host language\<close>

text \<open>
  Text is a \<^typ>\<open>string\<close> holding the UTF-8 bytes of the JavaScript string. The four
  symbols that the titles of \<^verbatim>\<open>index.ts\<close> start with are written as their bytes.
\<close>

definition cross_mark :: string where
  "cross_mark = [CHR 0xE2, CHR 0x9D, CHR 0x8C]"

definition check_mark :: string where
  "check_mark = [CHR 0xE2, CHR 0x9C, CHR 0x85]"

definition bust_mark :: string where
  "bust_mark = [CHR 0xF0, CHR 0x9F, CHR 0x91, CHR 0xA4]"

definition chart_mark :: string where
  "chart_mark = [CHR 0xF0, CHR 0x9F, CHR 0x93, CHR 0x8A]"

text \<open>
  \<^verbatim>\<open>String.prototype.trim\<close> removes the code points of WhiteSpace and LineTerminator
  from both ends. \<open>whitespace\<close> lists their UTF-8 encodings: U+0009 to U+000D, U+0020,
  U+00A0, U+1680, U+2000 to U+200A, U+2028, U+2029, U+202F, U+205F, U+3000 and U+FEFF.
\<close>

definition whitespace :: "string list" where
  "whitespace =
     [[CHR 0x09], [CHR 0x0A], [CHR 0x0B], [CHR 0x0C], [CHR 0x0D], [CHR 0x20],
      [CHR 0xC2, CHR 0xA0],
      [CHR 0xE1, CHR 0x9A, CHR 0x80],
      [CHR 0xE2, CHR 0x80, CHR 0x80], [CHR 0xE2, CHR 0x80, CHR 0x81],
      [CHR 0xE2, CHR 0x80, CHR 0x82], [CHR 0xE2, CHR 0x80, CHR 0x83],
      [CHR 0xE2, CHR 0x80, CHR 0x84], [CHR 0xE2, CHR 0x80, CHR 0x85],
      [CHR 0xE2, CHR 0x80, CHR 0x86], [CHR 0xE2, CHR 0x80, CHR 0x87],
      [CHR 0xE2, CHR 0x80, CHR 0x88], [CHR 0xE2, CHR 0x80, CHR 0x89],
      [CHR 0xE2, CHR 0x80, CHR 0x8A],
      [CHR 0xE2, CHR 0x80, CHR 0xA8], [CHR 0xE2, CHR 0x80, CHR 0xA9],
      [CHR 0xE2, CHR 0x80, CHR 0xAF],
      [CHR 0xE2, CHR 0x81, CHR 0x9F],
      [CHR 0xE3, CHR 0x80, CHR 0x80],
      [CHR 0xEF, CHR 0xBB, CHR 0xBF]]"

definition starts_with :: "string \<Rightarrow> string \<Rightarrow> bool" where
  "starts_with s p = (p \<noteq> [] \<and> take (length p) s = p)"

text \<open>\<open>strip ps s\<close> drops from the front of \<open>s\<close> every leading occurrence of a member of \<open>ps\<close>.\<close>

function strip :: "string list \<Rightarrow> string \<Rightarrow> string" where
  "strip ps s =
     (case find (starts_with s) ps of
        None \<Rightarrow> s
      | Some p \<Rightarrow> strip ps (drop (length p) s))"
  by pat_completeness auto
termination
proof (relation "measure (\<lambda>(ps, s). length s)")
  show "wf (measure (\<lambda>(ps, s). length s))" by simp
next
  fix ps :: "string list" and s p :: string
  assume "find (starts_with s) ps = Some p"
  then have sw: "starts_with s p"
    by (auto simp: find_Some_iff)
  then have "p \<noteq> []" and "take (length p) s = p"
    by (simp_all add: starts_with_def)
  then have "s \<noteq> []" by auto
  with \<open>p \<noteq> []\<close> show "((ps, drop (length p) s), (ps, s)) \<in> measure (\<lambda>(ps, s). length s)"
    by simp
qed

declare strip.simps [simp del]

definition trimStart :: "string \<Rightarrow> string" where
  "trimStart s = strip whitespace s"

definition trimEnd :: "string \<Rightarrow> string" where
  "trimEnd s = rev (strip (map rev whitespace) (rev s))"

definition trim :: "string \<Rightarrow> string" where
  "trim s = trimEnd (trimStart s)"

text \<open>
  \<^verbatim>\<open>Number.prototype.toString\<close> on an integer-valued number below \<open>10^21\<close> in
  magnitude, which covers every integer option the platform delivers and every HTTP status:
  the decimal numeral, with a minus sign for a negative number.
\<close>

definition digit_char :: "nat \<Rightarrow> char" where
  "digit_char d = ''0123456789'' ! d"

function nat_toString :: "nat \<Rightarrow> string" where
  "nat_toString n =
     (if n < 10 then [digit_char n] else nat_toString (n div 10) @ [digit_char (n mod 10)])"
  by pat_completeness auto
termination
  by (relation "measure (\<lambda>n. n)") auto

declare nat_toString.simps [simp del]

definition number_toString :: "int \<Rightarrow> string" where
  "number_toString i = (if i < 0 then CHR ''-'' # nat_toString (nat (- i)) else nat_toString (nat i))"

text \<open>The value a decimal numeral denotes, for stating that \<open>number_toString\<close> is decimal.\<close>

definition digit_value :: "char \<Rightarrow> nat" where
  "digit_value c = of_char c - 48"

definition decimal_value :: "string \<Rightarrow> nat" where
  "decimal_value s = foldl (\<lambda>a c. 10 * a + digit_value c) 0 s"

definition is_digit :: "char \<Rightarrow> bool" where
  "is_digit c = (48 \<le> (of_char c :: nat) \<and> (of_char c :: nat) \<le> 57)"

text \<open>
  A parsed JSON value. Numbers are the integer-valued ones; an object keeps its members in
  the order of the text, and a later member with the same key wins, as in \<^verbatim>\<open>JSON.parse\<close>.
\<close>

datatype json =
    JNull
  | JBool bool
  | JNum int
  | JStr string
  | JArr "json list"
  | JObj "(string \<times> json) list"

text \<open>
  A thrown value. Only its \<^verbatim>\<open>message\<close> is ever read by the program, so the class of
  the error (Error, TypeError, SyntaxError) is not recorded.
\<close>

datatype exn = Error (exn_message: string)

text \<open>
  Reading a property of a value that is not null: \<open>None\<close> is \<^verbatim>\<open>undefined\<close>. Only the
  names \<^verbatim>\<open>username ip hwid createdate lastlogin subscriptions subscription key expiry
  users licenses online\<close> are read, none of which a prototype of a JSON value defines, so a
  value that is not an object has none of them.
\<close>

fun get_prop :: "json \<Rightarrow> string \<Rightarrow> json option" where
  "get_prop (JObj kvs) k = map_of (rev kvs) k"
| "get_prop _ k = None"

text \<open>Truthiness of a value that may be \<^verbatim>\<open>undefined\<close>.\<close>

fun truthy :: "json option \<Rightarrow> bool" where
  "truthy None = False"
| "truthy (Some JNull) = False"
| "truthy (Some (JBool b)) = b"
| "truthy (Some (JNum n)) = (n \<noteq> 0)"
| "truthy (Some (JStr s)) = (s \<noteq> [])"
| "truthy (Some (JArr xs)) = True"
| "truthy (Some (JObj kvs)) = True"

text \<open>
  Conversion of a JSON value to a string, as a template literal and the method
  \<^verbatim>\<open>toString\<close> do it; \<open>None\<close> is a thrown TypeError. An array joins its elements with
  commas, null elements being empty. An object is \<^verbatim>\<open>[object Object]\<close> unless it has a
  member named \<^verbatim>\<open>toString\<close> of its own, which is not callable and makes the conversion
  throw.
\<close>

fun js_toString :: "json \<Rightarrow> string option"
  and js_join :: "json list \<Rightarrow> string option" where
  "js_toString JNull = Some ''null''"
| "js_toString (JBool b) = Some (if b then ''true'' else ''false'')"
| "js_toString (JNum n) = Some (number_toString n)"
| "js_toString (JStr s) = Some s"
| "js_toString (JArr xs) = js_join xs"
| "js_toString (JObj kvs) =
     (if ''toString'' \<in> set (map fst kvs) then None else Some ''[object Object]'')"
| "js_join [] = Some []"
| "js_join (x # xs) =
     (case (if x = JNull then Some [] else js_toString x) of
        None \<Rightarrow> None
      | Some s \<Rightarrow>
          (if xs = [] then Some s
           else (case js_join xs of None \<Rightarrow> None | Some r \<Rightarrow> Some (s @ '','' @ r))))"

text \<open>A template literal also converts \<^verbatim>\<open>undefined\<close>.\<close>

definition template_toString :: "json option \<Rightarrow> string option" where
  "template_toString v = (case v of None \<Rightarrow> Some ''undefined'' | Some j \<Rightarrow> js_toString j)"

section \<open>The upstream API client (\<^verbatim>\<open>keyauth.ts\<close>)\<close>

text \<open>
  An outbound request: the URL, the method, the headers and the form body. The body is the
  \<^verbatim>\<open>URLSearchParams\<close> built from an object, a map from keys to values; the order in which
  \<^verbatim>\<open>toString\<close> writes the pairs is not modelled.
\<close>

datatype request =
  Request (req_url: string) (req_method: string) (req_headers: "(string \<times> string) list")
    (req_body: "string \<rightharpoonup> string")

definition post_headers :: "(string \<times> string) list" where
  "post_headers =
     [(''Content-Type'', ''application/x-www-form-urlencoded''),
      (''User-Agent'', ''KeyAuth-Discord-Bot/1.0'')]"

text \<open>
  The object a response body parses to, with the members that the interfaces of
  \<^verbatim>\<open>keyauth.ts\<close> declare: \<^verbatim>\<open>success\<close>, \<^verbatim>\<open>message\<close> and \<^verbatim>\<open>info\<close> of
  \<^verbatim>\<open>KeyAuthResponse\<close>, and \<^verbatim>\<open>sessionid\<close> of the init reply. A member is \<open>None\<close> when
  it is missing. Bodies that parse to something else than such an object are outside the
  declared types and are not represented.
\<close>

record KeyAuthResponse =
  success :: "bool option"
  sessionid :: "string option"
  message :: "string option"
  info :: "json option"

text \<open>
  A response: status, status text, and what \<^verbatim>\<open>response.json()\<close> gives, \<open>Inl m\<close> being a
  rejection with message \<open>m\<close> (a body that is not JSON).
\<close>

datatype response =
  Response (status: nat) (statusText: string) (json_body: "string + KeyAuthResponse")

definition ok :: "response \<Rightarrow> bool" where
  "ok r = (200 \<le> status r \<and> status r \<le> 299)"

text \<open>What \<^verbatim>\<open>fetch\<close> gives: a rejection with an error message, or a response.\<close>

datatype fetch_result = Rejected string | Resolved response

text \<open>
  The surroundings of the program, which it does not control: the upstream server, whose
  answer may depend on the request and on all requests sent before; the random identifiers
  of \<^verbatim>\<open>crypto.randomUUID\<close>, by the number of earlier calls; and the \<^verbatim>\<open>Date\<close> of the
  runtime, whose parsing of strings (\<open>None\<close> is not-a-number) and whose formatting of a time
  value by locale are implementation-defined.
\<close>

record host =
  upstream :: "request list \<Rightarrow> request \<Rightarrow> fetch_result"
  randomUUID :: "nat \<Rightarrow> string"
  dateParse :: "string \<Rightarrow> int option"
  dateFormat :: "int \<Rightarrow> string"

text \<open>
  The effects on the surroundings so far: the requests sent, oldest first, and the number
  of identifiers drawn.
\<close>

record world =
  sent :: "request list"
  uuid_calls :: nat

definition fetch :: "host \<Rightarrow> world \<Rightarrow> request \<Rightarrow> fetch_result \<times> world" where
  "fetch h w rq = (upstream h (sent w) rq, w\<lparr>sent := sent w @ [rq]\<rparr>)"

record KeyAuthConfig =
  name :: string
  ownerid :: string
  version :: string
  url :: string

record KeyAuthClient =
  config :: KeyAuthConfig
  sessionId :: "string option"

text \<open>\<^verbatim>\<open>x || d\<close> for a string \<open>x\<close> that may be undefined: \<open>d\<close> when \<open>x\<close> is undefined or empty.\<close>

definition or_else :: "string option \<Rightarrow> string \<Rightarrow> string" where
  "or_else x d = (case x of None \<Rightarrow> d | Some s \<Rightarrow> if s = [] then d else s)"

text \<open>The constructor, reading the environment variables; \<open>Inl\<close> is the thrown error.\<close>

definition new_KeyAuthClient :: "(string \<rightharpoonup> string) \<Rightarrow> exn + KeyAuthClient" where
  "new_KeyAuthClient env =
     (let cfg = \<lparr>name = or_else (env ''KEYAUTH_NAME'') [],
                 ownerid = or_else (env ''KEYAUTH_OWNER_ID'') [],
                 version = or_else (env ''KEYAUTH_VERSION'') ''2.0'',
                 url = or_else (env ''KEYAUTH_URL'') ''https://keyauth.win/api/1.3/''\<rparr>
      in if name cfg = [] \<or> ownerid cfg = []
         then Inl (Error ''KeyAuth configuration is missing. Please set KEYAUTH_NAME and KEYAUTH_OWNER_ID environment variables.'')
         else Inr \<lparr>config = cfg, sessionId = None\<rparr>)"

definition init_request :: "KeyAuthConfig \<Rightarrow> request" where
  "init_request cfg =
     Request (url cfg) ''POST'' post_headers
       [''type'' \<mapsto> ''init'', ''ver'' \<mapsto> version cfg, ''name'' \<mapsto> name cfg,
        ''ownerid'' \<mapsto> ownerid cfg]"

text \<open>
  The \<^verbatim>\<open>try\<close> block of \<^verbatim>\<open>getSessionId\<close>, given what \<^verbatim>\<open>fetch\<close> gave: \<open>Inl e\<close> when it
  throws \<open>e\<close> (which the \<^verbatim>\<open>catch\<close> logs), \<open>Inr (Some s)\<close> when it returns the server's
  session identifier \<open>s\<close>, \<open>Inr None\<close> when it falls through.
\<close>

definition init_try :: "fetch_result \<Rightarrow> exn + string option" where
  "init_try res =
     (case res of
        Rejected m \<Rightarrow> Inl (Error m)
      | Resolved r \<Rightarrow>
          if ok r then
            (case json_body r of
               Inl m \<Rightarrow> Inl (Error m)
             | Inr data \<Rightarrow>
                 if success data = Some True \<and> or_else (sessionid data) [] \<noteq> []
                 then Inr (sessionid data)
                 else Inr None)
          else Inr None)"

definition getSessionId :: "host \<Rightarrow> KeyAuthClient \<Rightarrow> world \<Rightarrow> string \<times> KeyAuthClient \<times> world" where
  "getSessionId h c w =
     (case sessionId c of
        Some s \<Rightarrow> (s, c, w)
      | None \<Rightarrow>
          (let (res, w1) = fetch h w (init_request (config c)) in
           case init_try res of
             Inr (Some s) \<Rightarrow> (s, c\<lparr>sessionId := Some s\<rparr>, w1)
           | _ \<Rightarrow>
               (let s = randomUUID h (uuid_calls w1)
                in (s, c\<lparr>sessionId := Some s\<rparr>, w1\<lparr>uuid_calls := Suc (uuid_calls w1)\<rparr>))))"

text \<open>
  The \<^verbatim>\<open>try\<close> block of \<^verbatim>\<open>makeRequest\<close>, given what \<^verbatim>\<open>fetch\<close> gave; its \<^verbatim>\<open>catch\<close>
  wraps whatever was thrown, the error for a status outside 200 to 299 included.
\<close>

definition request_try :: "fetch_result \<Rightarrow> exn + KeyAuthResponse" where
  "request_try res =
     (case res of
        Rejected m \<Rightarrow> Inl (Error m)
      | Resolved r \<Rightarrow>
          if \<not> ok r
          then Inl (Error (''HTTP '' @ nat_toString (status r) @ '': '' @ statusText r))
          else (case json_body r of Inl m \<Rightarrow> Inl (Error m) | Inr data \<Rightarrow> Inr data))"

definition makeRequest ::
  "host \<Rightarrow> KeyAuthClient \<Rightarrow> world \<Rightarrow> string \<Rightarrow> (string \<rightharpoonup> string)
     \<Rightarrow> (exn + KeyAuthResponse) \<times> KeyAuthClient \<times> world" where
  "makeRequest h c w type params =
     (let (sid, c1, w1) = getSessionId h c w;
          requestParams =
            [''type'' \<mapsto> type, ''sessionid'' \<mapsto> sid, ''name'' \<mapsto> name (config c1),
             ''ownerid'' \<mapsto> ownerid (config c1)] ++ params;
          (res, w2) = fetch h w1 (Request (url (config c1)) ''POST'' post_headers requestParams)
      in (case request_try res of
            Inl e \<Rightarrow> Inl (Error (''KeyAuth API request failed: '' @ exn_message e))
          | Inr data \<Rightarrow> Inr data,
          c1, w2))"

subsection \<open>The operations\<close>

definition getUserInfo where
  "getUserInfo h c w username = makeRequest h c w ''user'' [''username'' \<mapsto> username]"

definition banUser where
  "banUser h c w username = makeRequest h c w ''ban'' [''username'' \<mapsto> username]"

definition unbanUser where
  "unbanUser h c w username = makeRequest h c w ''unban'' [''username'' \<mapsto> username]"

definition deleteUser where
  "deleteUser h c w username = makeRequest h c w ''deleteuser'' [''username'' \<mapsto> username]"

definition resetHWID where
  "resetHWID h c w username = makeRequest h c w ''resetuser'' [''username'' \<mapsto> username]"

definition createLicense where
  "createLicense h c w license days =
     makeRequest h c w ''add'' [''key'' \<mapsto> license, ''days'' \<mapsto> number_toString days]"

definition deleteLicense where
  "deleteLicense h c w license = makeRequest h c w ''delete'' [''key'' \<mapsto> license]"

definition useLicense where
  "useLicense h c w license username =
     makeRequest h c w ''use'' [''key'' \<mapsto> license, ''username'' \<mapsto> username]"

definition extendSubscription where
  "extendSubscription h c w username subscription days =
     makeRequest h c w ''extend''
       [''username'' \<mapsto> username, ''subscription'' \<mapsto> subscription,
        ''days'' \<mapsto> number_toString days]"

definition getStats where
  "getStats h c w = makeRequest h c w ''stats'' Map.empty"

definition setWebhook where
  "setWebhook h c w webhook = makeRequest h c w ''webhook'' [''webhook'' \<mapsto> webhook]"

definition addChannel where
  "addChannel h c w channel = makeRequest h c w ''addchannel'' [''channel'' \<mapsto> channel]"

definition deleteChannel where
  "deleteChannel h c w channel = makeRequest h c w ''deletechannel'' [''channel'' \<mapsto> channel]"

text \<open>
  A call of one of the thirteen public methods, as a value, and a run of such calls one
  after the other on the same client.
\<close>

datatype operation =
    GetUserInfo string
  | BanUser string
  | UnbanUser string
  | DeleteUser string
  | ResetHWID string
  | CreateLicense string int
  | DeleteLicense string
  | UseLicense string string
  | ExtendSubscription string string int
  | GetStats
  | SetWebhook string
  | AddChannel string
  | DeleteChannel string

fun perform ::
  "host \<Rightarrow> KeyAuthClient \<Rightarrow> world \<Rightarrow> operation
     \<Rightarrow> (exn + KeyAuthResponse) \<times> KeyAuthClient \<times> world" where
  "perform h c w (GetUserInfo u) = getUserInfo h c w u"
| "perform h c w (BanUser u) = banUser h c w u"
| "perform h c w (UnbanUser u) = unbanUser h c w u"
| "perform h c w (DeleteUser u) = deleteUser h c w u"
| "perform h c w (ResetHWID u) = resetHWID h c w u"
| "perform h c w (CreateLicense l d) = createLicense h c w l d"
| "perform h c w (DeleteLicense l) = deleteLicense h c w l"
| "perform h c w (UseLicense l u) = useLicense h c w l u"
| "perform h c w (ExtendSubscription u s d) = extendSubscription h c w u s d"
| "perform h c w GetStats = getStats h c w"
| "perform h c w (SetWebhook x) = setWebhook h c w x"
| "perform h c w (AddChannel x) = addChannel h c w x"
| "perform h c w (DeleteChannel x) = deleteChannel h c w x"

fun perform_all ::
  "host \<Rightarrow> KeyAuthClient \<Rightarrow> world \<Rightarrow> operation list \<Rightarrow> KeyAuthClient \<times> world" where
  "perform_all h c w [] = (c, w)"
| "perform_all h c w (x # xs) =
     (case perform h c w x of (r, c1, w1) \<Rightarrow> perform_all h c1 w1 xs)"

section \<open>The command dispatcher (\<^verbatim>\<open>index.ts\<close>)\<close>

subsection \<open>Notifications\<close>

text \<open>
  An embed as the program builds it: title, description, colour and fields. The value of a
  field is whatever the program passes, a string or a value taken from the untyped
  \<^verbatim>\<open>info\<close>. The timestamp of \<^verbatim>\<open>setTimestamp\<close> is the time of day and is left out.
  A reply is the list of embeds and the \<^verbatim>\<open>ephemeral\<close> flag, \<open>False\<close> when not given.
\<close>

datatype field = Field (field_name: string) (field_value: json) (field_inline: bool)

record embed =
  title :: string
  description :: string
  color :: nat
  embed_fields :: "field list"

record reply =
  embeds :: "embed list"
  ephemeral :: bool

text \<open>
  The \<^verbatim>\<open>length\<close> of a JavaScript string, its number of UTF-16 code units, from the UTF-8
  bytes: one for every byte that starts a code point, and one more for every byte that
  starts a code point of four bytes.
\<close>

definition is_continuation :: "char \<Rightarrow> bool" where
  "is_continuation c = (128 \<le> (of_char c :: nat) \<and> (of_char c :: nat) < 192)"

definition js_length :: "string \<Rightarrow> nat" where
  "js_length s =
     length (filter (\<lambda>c. \<not> is_continuation c) s)
     + length (filter (\<lambda>c. 240 \<le> (of_char c :: nat)) s)"

text \<open>
  \<^verbatim>\<open>EmbedBuilder\<close> of the library (discord.js 14) checks what its setters are given and
  throws when a check fails: the title must have 1 to 256 characters, the description 1 to
  4096, the colour must be at most \<^verbatim>\<open>0xFFFFFF\<close>; an embed takes at most 25 fields, the
  name of a field must have 1 to 256 characters, and its value must be a string of 1 to 1024
  characters. The library's error says \<^verbatim>\<open>Received one or more errors\<close>; the one error
  \<open>validation_error\<close> stands for every refusal.
\<close>

definition validation_error :: exn where
  "validation_error = Error ''Received one or more errors''"

definition valid_text :: "nat \<Rightarrow> string \<Rightarrow> bool" where
  "valid_text n s = (1 \<le> js_length s \<and> js_length s \<le> n)"

definition valid_field :: "field \<Rightarrow> bool" where
  "valid_field f =
     (valid_text 256 (field_name f)
      \<and> (case field_value f of JStr s \<Rightarrow> valid_text 1024 s | _ \<Rightarrow> False))"

text \<open>
  \<^verbatim>\<open>createEmbed\<close>, lines 171 to 177: \<^verbatim>\<open>setTitle\<close>, \<^verbatim>\<open>setDescription\<close> and
  \<^verbatim>\<open>setColor\<close> in this order; \<open>Inl\<close> is the error thrown by the first that refuses.
\<close>

definition createEmbed :: "string \<Rightarrow> string \<Rightarrow> nat \<Rightarrow> exn + embed" where
  "createEmbed t d c =
     (if \<not> valid_text 256 t then Inl validation_error
      else if \<not> valid_text 4096 d then Inl validation_error
      else if 0xFFFFFF < c then Inl validation_error
      else Inr \<lparr>title = t, description = d, color = c, embed_fields = []\<rparr>)"

text \<open>The colour \<^verbatim>\<open>createEmbed\<close> takes when called with two arguments.\<close>

definition default_color :: nat where
  "default_color = 0x5865F2"

text \<open>\<^verbatim>\<open>addFields\<close> of the builder: the count is checked first, then every field.\<close>

definition addFields :: "embed \<Rightarrow> field list \<Rightarrow> exn + embed" where
  "addFields e fs =
     (if 25 < length (embed_fields e) + length fs then Inl validation_error
      else if \<not> list_all valid_field fs then Inl validation_error
      else Inr (e\<lparr>embed_fields := embed_fields e @ fs\<rparr>))"

subsection \<open>Dates\<close>

text \<open>
  \<^verbatim>\<open>new Date(v)\<close> for a value \<open>v\<close> that may be undefined. The result is the time value,
  \<open>None\<close> for an invalid date; the outer \<open>None\<close> is a thrown TypeError (an object that cannot
  be converted to a primitive). A number is clipped at \<open>8.64 * 10^15\<close> milliseconds; a
  string, and an array or object through its string, is parsed by the runtime.
\<close>

definition timeClip :: "int \<Rightarrow> int option" where
  "timeClip t = (if \<bar>t\<bar> > 8640000000000000 then None else Some t)"

fun new_Date :: "host \<Rightarrow> json option \<Rightarrow> int option option" where
  "new_Date h None = Some None"
| "new_Date h (Some JNull) = Some (timeClip 0)"
| "new_Date h (Some (JBool b)) = Some (timeClip (if b then 1 else 0))"
| "new_Date h (Some (JNum n)) = Some (timeClip n)"
| "new_Date h (Some (JStr s)) = Some (Option.bind (dateParse h s) timeClip)"
| "new_Date h (Some v) =
     (case js_toString v of
        None \<Rightarrow> None
      | Some s \<Rightarrow> Some (Option.bind (dateParse h s) timeClip))"

definition toLocaleDateString :: "host \<Rightarrow> int option \<Rightarrow> string" where
  "toLocaleDateString h t = (case t of None \<Rightarrow> ''Invalid Date'' | Some tv \<Rightarrow> dateFormat h tv)"

definition localeDate :: "host \<Rightarrow> json option \<Rightarrow> string option" where
  "localeDate h v = map_option (toLocaleDateString h) (new_Date h v)"

text \<open>The messages of the runtime's TypeErrors.\<close>

definition not_primitive :: exn where
  "not_primitive = Error ''Cannot convert object to primitive value''"

definition null_property :: "string \<Rightarrow> exn" where
  "null_property k = Error (''Cannot read properties of null (reading '' @ [CHR 0x27] @ k @ [CHR 0x27] @ '')'')"

definition not_a_function :: "string \<Rightarrow> exn" where
  "not_a_function e = Error (e @ '' is not a function'')"

subsection \<open>The embeds of \<^verbatim>\<open>user\<close> and \<^verbatim>\<open>stats\<close>\<close>

text \<open>\<^verbatim>\<open>v || d\<close> for an untyped \<open>v\<close> and a string \<open>d\<close>.\<close>

definition value_or :: "json option \<Rightarrow> string \<Rightarrow> json" where
  "value_or v d = (case v of None \<Rightarrow> JStr d | Some j \<Rightarrow> if truthy (Some j) then j else JStr d)"

text \<open>\<^verbatim>\<open>v ? new Date(v).toLocaleDateString() : d\<close>; \<open>Inl\<close> is a thrown error.\<close>

definition date_or :: "host \<Rightarrow> json option \<Rightarrow> string \<Rightarrow> exn + json" where
  "date_or h v d =
     (if truthy v
      then (case localeDate h v of None \<Rightarrow> Inl not_primitive | Some s \<Rightarrow> Inr (JStr s))
      else Inr (JStr d))"

text \<open>The text of one subscription, the function mapped over \<^verbatim>\<open>info.subscriptions\<close>.\<close>

definition sub_text :: "host \<Rightarrow> json \<Rightarrow> exn + string" where
  "sub_text h sub =
     (if sub = JNull then Inl (null_property ''subscription'')
      else
        (case template_toString (get_prop sub ''subscription'') of
           None \<Rightarrow> Inl not_primitive
         | Some a \<Rightarrow>
             (case template_toString (get_prop sub ''key'') of
                None \<Rightarrow> Inl not_primitive
              | Some k \<Rightarrow>
                  (case localeDate h (get_prop sub ''expiry'') of
                     None \<Rightarrow> Inl not_primitive
                   | Some x \<Rightarrow>
                       Inr (''**'' @ a @ ''**'' @ [CHR 0x0A] @ ''Key: '' @ k @ [CHR 0x0A]
                            @ ''Expiry: '' @ x)))))"

text \<open>\<^verbatim>\<open>map\<close> with a callback that may throw: the first error stops it.\<close>

fun map_throwing :: "('a \<Rightarrow> exn + 'b) \<Rightarrow> 'a list \<Rightarrow> exn + 'b list" where
  "map_throwing f [] = Inr []"
| "map_throwing f (x # xs) =
     (case f x of
        Inl e \<Rightarrow> Inl e
      | Inr y \<Rightarrow> (case map_throwing f xs of Inl e \<Rightarrow> Inl e | Inr ys \<Rightarrow> Inr (y # ys)))"

fun join :: "string \<Rightarrow> string list \<Rightarrow> string" where
  "join sep [] = []"
| "join sep [x] = x"
| "join sep (x # xs) = x @ sep @ join sep xs"

text \<open>
  The embed of a successful \<^verbatim>\<open>user\<close> lookup, lines 208 to 223: \<^verbatim>\<open>createEmbed\<close> with
  the empty description, then the values of the five fields, then \<^verbatim>\<open>addFields\<close>, then
  the field of the subscriptions when \<^verbatim>\<open>info.subscriptions\<close> is a non-empty array.
\<close>

definition user_embed :: "host \<Rightarrow> string \<Rightarrow> json \<Rightarrow> exn + embed" where
  "user_embed h username info0 =
     (case createEmbed (bust_mark @ '' User: '' @ username) [] default_color of
        Inl e \<Rightarrow> Inl e
      | Inr embed0 \<Rightarrow>
     (case date_or h (get_prop info0 ''createdate'') ''N/A'' of
        Inl e \<Rightarrow> Inl e
      | Inr created \<Rightarrow>
     (case date_or h (get_prop info0 ''lastlogin'') ''N/A'' of
        Inl e \<Rightarrow> Inl e
      | Inr lastLogin \<Rightarrow>
     (case addFields embed0
             [Field ''Username'' (value_or (get_prop info0 ''username'') ''N/A'') True,
              Field ''IP Address'' (value_or (get_prop info0 ''ip'') ''N/A'') True,
              Field ''HWID'' (value_or (get_prop info0 ''hwid'') ''N/A'') True,
              Field ''Created'' created True,
              Field ''Last Login'' lastLogin True] of
        Inl e \<Rightarrow> Inl e
      | Inr embed1 \<Rightarrow>
          (case get_prop info0 ''subscriptions'' of
             Some (JArr (x # xs)) \<Rightarrow>
               (case map_throwing (sub_text h) (x # xs) of
                  Inl e \<Rightarrow> Inl e
                | Inr texts \<Rightarrow>
                    (let subs = join [CHR 0x0A, CHR 0x0A] texts
                     in addFields embed1
                          [Field ''Subscriptions'' (JStr (if subs = [] then ''None'' else subs))
                             False]))
           | _ \<Rightarrow> Inr embed1)))))"

text \<open>
  \<^verbatim>\<open>v?.toString() || d\<close>, the value of a statistics field; \<open>e\<close> is the text of the
  call, for the message of the error when \<open>v\<close> is an object whose own \<^verbatim>\<open>toString\<close> hides
  the method.
\<close>

definition count_text :: "string \<Rightarrow> json option \<Rightarrow> string \<Rightarrow> exn + json" where
  "count_text e v d =
     (case v of
        None \<Rightarrow> Inr (JStr d)
      | Some JNull \<Rightarrow> Inr (JStr d)
      | Some j \<Rightarrow>
          (case js_toString j of
             None \<Rightarrow> Inl (case j of JObj kvs \<Rightarrow> not_a_function e | _ \<Rightarrow> not_primitive)
           | Some s \<Rightarrow> Inr (JStr (if s = [] then d else s))))"

text \<open>
  The embed of a successful \<^verbatim>\<open>stats\<close> query, lines 396 to 402, built in the same order.
\<close>

definition stats_embed :: "json \<Rightarrow> exn + embed" where
  "stats_embed stats =
     (case createEmbed (chart_mark @ '' Application Statistics'') [] default_color of
        Inl e \<Rightarrow> Inl e
      | Inr embed0 \<Rightarrow>
     (case count_text ''stats.users?.toString'' (get_prop stats ''users'') ''0'' of
        Inl e \<Rightarrow> Inl e
      | Inr users \<Rightarrow>
     (case count_text ''stats.licenses?.toString'' (get_prop stats ''licenses'') ''0'' of
        Inl e \<Rightarrow> Inl e
      | Inr licenses \<Rightarrow>
     (case count_text ''stats.online?.toString'' (get_prop stats ''online'') ''0'' of
        Inl e \<Rightarrow> Inl e
      | Inr online \<Rightarrow>
          addFields embed0
            [Field ''Total Users'' users True,
             Field ''Total Licenses'' licenses True,
             Field ''Online Users'' online True]))))"

subsection \<open>Invocations\<close>

text \<open>
  An invocation as the platform delivers it: whether it is a slash command, the caller, the
  name of the command, and the options by name. \<open>getString\<close> and \<open>getInteger\<close> are the
  resolver's methods called with \<^verbatim>\<open>required = true\<close>: they throw when the option is
  missing or has another type (the texts are the library's, with its type numbers 3 for a
  string and 4 for an integer).
\<close>

datatype option_value = StringOption string | IntegerOption int

record interaction =
  isChatInputCommand :: bool
  user_id :: string
  commandName :: string
  options :: "string \<rightharpoonup> option_value"

definition option_not_found :: "string \<Rightarrow> exn" where
  "option_not_found k = Error (''Required option '' @ [CHR 0x22] @ k @ [CHR 0x22] @ '' not found.'')"

definition option_type :: "string \<Rightarrow> string \<Rightarrow> string \<Rightarrow> exn" where
  "option_type k actual expected =
     Error (''Option '' @ [CHR 0x22] @ k @ [CHR 0x22] @ '' is of type: '' @ actual
            @ ''; expected '' @ expected @ ''.'')"

definition getString :: "(string \<rightharpoonup> option_value) \<Rightarrow> string \<Rightarrow> exn + string" where
  "getString opts k =
     (case opts k of
        None \<Rightarrow> Inl (option_not_found k)
      | Some (StringOption s) \<Rightarrow> Inr s
      | Some (IntegerOption n) \<Rightarrow> Inl (option_type k ''4'' ''3''))"

definition getInteger :: "(string \<rightharpoonup> option_value) \<Rightarrow> string \<Rightarrow> exn + int" where
  "getInteger opts k =
     (case opts k of
        None \<Rightarrow> Inl (option_not_found k)
      | Some (IntegerOption n) \<Rightarrow> Inr n
      | Some (StringOption s) \<Rightarrow> Inl (option_type k ''3'' ''4''))"

subsection \<open>The state of the process\<close>

text \<open>
  The module's values \<^verbatim>\<open>keyAuth\<close> and \<^verbatim>\<open>adminIds\<close>, the effects on the network, and
  the replies made so far, oldest first. \<^verbatim>\<open>interaction.reply\<close> is taken to succeed
  once its argument is built; building the embed is what may throw.
\<close>

record bot =
  keyAuth :: KeyAuthClient
  adminIds :: "string list"
  net :: world
  replies :: "reply list"

fun split :: "char \<Rightarrow> string \<Rightarrow> string list" where
  "split c [] = [[]]"
| "split c (x # xs) =
     (if x = c then [] # split c xs
      else (case split c xs of [] \<Rightarrow> [[x]] | y # ys \<Rightarrow> (x # y) # ys))"

definition parse_adminIds :: "(string \<rightharpoonup> string) \<Rightarrow> string list" where
  "parse_adminIds env =
     filter (\<lambda>s. s \<noteq> []) (map trim (split CHR '','' (or_else (env ''ADMIN_IDS'') [])))"

text \<open>Loading the module, lines 19 to 22: \<open>Inl\<close> when the constructor of the client throws.\<close>

definition startup :: "(string \<rightharpoonup> string) \<Rightarrow> exn + bot" where
  "startup env =
     (case new_KeyAuthClient env of
        Inl e \<Rightarrow> Inl e
      | Inr c \<Rightarrow>
          Inr \<lparr>keyAuth = c, adminIds = parse_adminIds env,
               net = \<lparr>sent = [], uuid_calls = 0\<rparr>, replies = []\<rparr>)"

definition isAdmin :: "bot \<Rightarrow> string \<Rightarrow> bool" where
  "isAdmin b userId = (userId \<in> set (adminIds b))"

definition interaction_reply :: "bot \<Rightarrow> reply \<Rightarrow> bot" where
  "interaction_reply b r = b\<lparr>replies := replies b @ [r]\<rparr>"

text \<open>A reply with one embed that only the caller sees, and one that everybody sees.\<close>

definition reply_ephemeral :: "bot \<Rightarrow> embed \<Rightarrow> bot" where
  "reply_ephemeral b e = interaction_reply b \<lparr>embeds = [e], ephemeral = True\<rparr>"

definition reply_public :: "bot \<Rightarrow> embed \<Rightarrow> bot" where
  "reply_public b e = interaction_reply b \<lparr>embeds = [e], ephemeral = False\<rparr>"

text \<open>
  \<^verbatim>\<open>await interaction.reply({ embeds: [...], ephemeral })\<close>: the embed is built first, and
  when building it throws, no reply is made. The result is the thrown error, if any, and the
  state.
\<close>

definition reply_with :: "bot \<Rightarrow> bool \<Rightarrow> exn + embed \<Rightarrow> exn option \<times> bot" where
  "reply_with b eph r =
     (case r of
        Inl e \<Rightarrow> (Some e, b)
      | Inr e1 \<Rightarrow> (None, interaction_reply b \<lparr>embeds = [e1], ephemeral = eph\<rparr>))"

text \<open>The state after a call of the client that left the client \<open>c\<close> and the network \<open>w\<close>.\<close>

definition after_call :: "bot \<Rightarrow> KeyAuthClient \<Rightarrow> world \<Rightarrow> bot" where
  "after_call b c w = b\<lparr>keyAuth := c, net := w\<rparr>"

text \<open>\<^verbatim>\<open>result.success\<close> as a condition.\<close>

definition succeeded :: "KeyAuthResponse \<Rightarrow> bool" where
  "succeeded result = (success result = Some True)"

subsection \<open>The cases of the \<^verbatim>\<open>switch\<close>\<close>

text \<open>
  Each case gives the error it throws, if any, and the state it leaves. The texts follow
  lines 196 to 418.
\<close>

definition case_user :: "host \<Rightarrow> bot \<Rightarrow> interaction \<Rightarrow> exn option \<times> bot" where
  "case_user h b i =
     (case getString (options i) ''username'' of
        Inl e \<Rightarrow> (Some e, b)
      | Inr s \<Rightarrow>
          (let username = trim s in
           if username = [] then
             reply_with b True
               (createEmbed (cross_mark @ '' Error'') ''Username cannot be empty'' 0xFF0000)
           else
             (case getUserInfo h (keyAuth b) (net b) username of
                (Inl e, c1, w1) \<Rightarrow> (Some e, after_call b c1 w1)
              | (Inr result, c1, w1) \<Rightarrow>
                  (if succeeded result \<and> truthy (info result) then
                     reply_with (after_call b c1 w1) False
                       (user_embed h username (the (info result)))
                   else
                     reply_with (after_call b c1 w1) False
                       (createEmbed (cross_mark @ '' Error'')
                          (or_else (message result) ''User not found'') 0xFF0000)))))"

definition case_ban :: "host \<Rightarrow> bot \<Rightarrow> interaction \<Rightarrow> exn option \<times> bot" where
  "case_ban h b i =
     (case getString (options i) ''username'' of
        Inl e \<Rightarrow> (Some e, b)
      | Inr s \<Rightarrow>
          (let username = trim s in
           if username = [] then
             reply_with b True
               (createEmbed (cross_mark @ '' Error'') ''Username cannot be empty'' 0xFF0000)
           else
             (case banUser h (keyAuth b) (net b) username of
                (Inl e, c1, w1) \<Rightarrow> (Some e, after_call b c1 w1)
              | (Inr result, c1, w1) \<Rightarrow>
                  reply_with (after_call b c1 w1) False
                    (createEmbed
                       (if succeeded result then check_mark @ '' User Banned''
                        else cross_mark @ '' Error'')
                       (or_else (message result)
                          (if succeeded result then ''User '' @ username @ '' has been banned.''
                           else ''Failed to ban user''))
                       (if succeeded result then 0x00FF00 else 0xFF0000)))))"

definition case_unban :: "host \<Rightarrow> bot \<Rightarrow> interaction \<Rightarrow> exn option \<times> bot" where
  "case_unban h b i =
     (case getString (options i) ''username'' of
        Inl e \<Rightarrow> (Some e, b)
      | Inr s \<Rightarrow>
          (let username = trim s in
           if username = [] then
             reply_with b True
               (createEmbed (cross_mark @ '' Error'') ''Username cannot be empty'' 0xFF0000)
           else
             (case unbanUser h (keyAuth b) (net b) username of
                (Inl e, c1, w1) \<Rightarrow> (Some e, after_call b c1 w1)
              | (Inr result, c1, w1) \<Rightarrow>
                  reply_with (after_call b c1 w1) False
                    (createEmbed
                       (if succeeded result then check_mark @ '' User Unbanned''
                        else cross_mark @ '' Error'')
                       (or_else (message result)
                          (if succeeded result then ''User '' @ username @ '' has been unbanned.''
                           else ''Failed to unban user''))
                       (if succeeded result then 0x00FF00 else 0xFF0000)))))"

definition case_deleteuser :: "host \<Rightarrow> bot \<Rightarrow> interaction \<Rightarrow> exn option \<times> bot" where
  "case_deleteuser h b i =
     (case getString (options i) ''username'' of
        Inl e \<Rightarrow> (Some e, b)
      | Inr s \<Rightarrow>
          (let username = trim s in
           if username = [] then
             reply_with b True
               (createEmbed (cross_mark @ '' Error'') ''Username cannot be empty'' 0xFF0000)
           else
             (case deleteUser h (keyAuth b) (net b) username of
                (Inl e, c1, w1) \<Rightarrow> (Some e, after_call b c1 w1)
              | (Inr result, c1, w1) \<Rightarrow>
                  reply_with (after_call b c1 w1) False
                    (createEmbed
                       (if succeeded result then check_mark @ '' User Deleted''
                        else cross_mark @ '' Error'')
                       (or_else (message result)
                          (if succeeded result then ''User '' @ username @ '' has been deleted.''
                           else ''Failed to delete user''))
                       (if succeeded result then 0x00FF00 else 0xFF0000)))))"

definition case_resethwid :: "host \<Rightarrow> bot \<Rightarrow> interaction \<Rightarrow> exn option \<times> bot" where
  "case_resethwid h b i =
     (case getString (options i) ''username'' of
        Inl e \<Rightarrow> (Some e, b)
      | Inr s \<Rightarrow>
          (let username = trim s in
           if username = [] then
             reply_with b True
               (createEmbed (cross_mark @ '' Error'') ''Username cannot be empty'' 0xFF0000)
           else
             (case resetHWID h (keyAuth b) (net b) username of
                (Inl e, c1, w1) \<Rightarrow> (Some e, after_call b c1 w1)
              | (Inr result, c1, w1) \<Rightarrow>
                  reply_with (after_call b c1 w1) False
                    (createEmbed
                       (if succeeded result then check_mark @ '' HWID Reset''
                        else cross_mark @ '' Error'')
                       (or_else (message result)
                          (if succeeded result then ''HWID for '' @ username @ '' has been reset.''
                           else ''Failed to reset HWID''))
                       (if succeeded result then 0x00FF00 else 0xFF0000)))))"

definition case_createlicense :: "host \<Rightarrow> bot \<Rightarrow> interaction \<Rightarrow> exn option \<times> bot" where
  "case_createlicense h b i =
     (case getString (options i) ''license'' of
        Inl e \<Rightarrow> (Some e, b)
      | Inr license \<Rightarrow>
     (case getInteger (options i) ''days'' of
        Inl e \<Rightarrow> (Some e, b)
      | Inr days \<Rightarrow>
          (case createLicense h (keyAuth b) (net b) license days of
             (Inl e, c1, w1) \<Rightarrow> (Some e, after_call b c1 w1)
           | (Inr result, c1, w1) \<Rightarrow>
               reply_with (after_call b c1 w1) False
                 (createEmbed
                    (if succeeded result then check_mark @ '' License Created''
                     else cross_mark @ '' Error'')
                    (or_else (message result)
                       (if succeeded result
                        then ''License '' @ license @ '' created for '' @ number_toString days
                             @ '' days.''
                        else ''Failed to create license''))
                    (if succeeded result then 0x00FF00 else 0xFF0000)))))"

definition case_deletelicense :: "host \<Rightarrow> bot \<Rightarrow> interaction \<Rightarrow> exn option \<times> bot" where
  "case_deletelicense h b i =
     (case getString (options i) ''license'' of
        Inl e \<Rightarrow> (Some e, b)
      | Inr license \<Rightarrow>
          (case deleteLicense h (keyAuth b) (net b) license of
             (Inl e, c1, w1) \<Rightarrow> (Some e, after_call b c1 w1)
           | (Inr result, c1, w1) \<Rightarrow>
               reply_with (after_call b c1 w1) False
                 (createEmbed
                    (if succeeded result then check_mark @ '' License Deleted''
                     else cross_mark @ '' Error'')
                    (or_else (message result)
                       (if succeeded result then ''License '' @ license @ '' has been deleted.''
                        else ''Failed to delete license''))
                    (if succeeded result then 0x00FF00 else 0xFF0000))))"

definition case_uselicense :: "host \<Rightarrow> bot \<Rightarrow> interaction \<Rightarrow> exn option \<times> bot" where
  "case_uselicense h b i =
     (case getString (options i) ''license'' of
        Inl e \<Rightarrow> (Some e, b)
      | Inr s1 \<Rightarrow>
     (case getString (options i) ''username'' of
        Inl e \<Rightarrow> (Some e, b)
      | Inr s2 \<Rightarrow>
          (let license = trim s1; username = trim s2 in
           if license = [] \<or> username = [] then
             reply_with b True
               (createEmbed (cross_mark @ '' Error'') ''License and username cannot be empty''
                  0xFF0000)
           else
             (case useLicense h (keyAuth b) (net b) license username of
                (Inl e, c1, w1) \<Rightarrow> (Some e, after_call b c1 w1)
              | (Inr result, c1, w1) \<Rightarrow>
                  reply_with (after_call b c1 w1) False
                    (createEmbed
                       (if succeeded result then check_mark @ '' License Applied''
                        else cross_mark @ '' Error'')
                       (or_else (message result)
                          (if succeeded result
                           then ''License '' @ license @ '' applied to '' @ username @ ''.''
                           else ''Failed to apply license''))
                       (if succeeded result then 0x00FF00 else 0xFF0000))))))"

definition case_extendsub :: "host \<Rightarrow> bot \<Rightarrow> interaction \<Rightarrow> exn option \<times> bot" where
  "case_extendsub h b i =
     (case getString (options i) ''username'' of
        Inl e \<Rightarrow> (Some e, b)
      | Inr s1 \<Rightarrow>
     (case getString (options i) ''subscription'' of
        Inl e \<Rightarrow> (Some e, b)
      | Inr s2 \<Rightarrow>
     (case getInteger (options i) ''days'' of
        Inl e \<Rightarrow> (Some e, b)
      | Inr days \<Rightarrow>
          (let username = trim s1; subscription = trim s2 in
           if username = [] \<or> subscription = [] then
             reply_with b True
               (createEmbed (cross_mark @ '' Error'')
                  ''Username and subscription cannot be empty'' 0xFF0000)
           else
             (case extendSubscription h (keyAuth b) (net b) username subscription days of
                (Inl e, c1, w1) \<Rightarrow> (Some e, after_call b c1 w1)
              | (Inr result, c1, w1) \<Rightarrow>
                  reply_with (after_call b c1 w1) False
                    (createEmbed
                       (if succeeded result then check_mark @ '' Subscription Extended''
                        else cross_mark @ '' Error'')
                       (or_else (message result)
                          (if succeeded result
                           then ''Subscription '' @ subscription @ '' for '' @ username
                                @ '' extended by '' @ number_toString days @ '' days.''
                           else ''Failed to extend subscription''))
                       (if succeeded result then 0x00FF00 else 0xFF0000)))))))"

definition case_stats :: "host \<Rightarrow> bot \<Rightarrow> interaction \<Rightarrow> exn option \<times> bot" where
  "case_stats h b i =
     (case getStats h (keyAuth b) (net b) of
        (Inl e, c1, w1) \<Rightarrow> (Some e, after_call b c1 w1)
      | (Inr result, c1, w1) \<Rightarrow>
          (if succeeded result \<and> truthy (info result) then
             reply_with (after_call b c1 w1) False (stats_embed (the (info result)))
           else
             reply_with (after_call b c1 w1) False
               (createEmbed (cross_mark @ '' Error'')
                  (or_else (message result) ''Failed to fetch statistics'') 0xFF0000)))"

definition case_default :: "host \<Rightarrow> bot \<Rightarrow> interaction \<Rightarrow> exn option \<times> bot" where
  "case_default h b i =
     reply_with b True
       (createEmbed (cross_mark @ '' Unknown Command'') ''This command is not implemented.''
          0xFF0000)"

text \<open>The \<^verbatim>\<open>switch\<close> on the name of the command, the body of the \<^verbatim>\<open>try\<close>.\<close>

definition switch_command :: "host \<Rightarrow> bot \<Rightarrow> interaction \<Rightarrow> exn option \<times> bot" where
  "switch_command h b i =
     (if commandName i = ''user'' then case_user h b i
      else if commandName i = ''ban'' then case_ban h b i
      else if commandName i = ''unban'' then case_unban h b i
      else if commandName i = ''deleteuser'' then case_deleteuser h b i
      else if commandName i = ''resethwid'' then case_resethwid h b i
      else if commandName i = ''createlicense'' then case_createlicense h b i
      else if commandName i = ''deletelicense'' then case_deletelicense h b i
      else if commandName i = ''uselicense'' then case_uselicense h b i
      else if commandName i = ''extendsub'' then case_extendsub h b i
      else if commandName i = ''stats'' then case_stats h b i
      else case_default h b i)"

text \<open>
  The handler of \<^verbatim>\<open>interactionCreate\<close>, lines 180 to 426. The result is the state after
  one invocation and the error with which the handler's promise rejects, \<open>None\<close> when it
  resolves. The denial is built outside the \<^verbatim>\<open>try\<close>; what the \<^verbatim>\<open>try\<close> throws is
  caught, and what the \<^verbatim>\<open>catch\<close> block itself throws when it builds its embed is not.
\<close>

definition interactionCreate :: "host \<Rightarrow> bot \<Rightarrow> interaction \<Rightarrow> exn option \<times> bot" where
  "interactionCreate h b i =
     (if \<not> isChatInputCommand i then (None, b)
      else if \<not> isAdmin b (user_id i) then
        reply_with b True
          (createEmbed (cross_mark @ '' Access Denied'')
             ''You do not have permission to use this bot.'' 0xFF0000)
      else
        (case switch_command h b i of
           (None, b1) \<Rightarrow> (None, b1)
         | (Some e, b1) \<Rightarrow>
             reply_with b1 True
               (createEmbed (cross_mark @ '' Error'') (''An error occurred: '' @ exn_message e)
                  0xFF0000)))"

section \<open>Vocabulary of the properties\<close>

text \<open>
  The definitions of this section are not parts of the program: they name what the
  properties below speak about, and each one is tied to the program by a lemma.
\<close>

subsection \<open>Requests\<close>

text \<open>The type and the extra parameters with which an operation calls \<open>makeRequest\<close>.\<close>

fun op_type :: "operation \<Rightarrow> string" where
  "op_type (GetUserInfo u) = ''user''"
| "op_type (BanUser u) = ''ban''"
| "op_type (UnbanUser u) = ''unban''"
| "op_type (DeleteUser u) = ''deleteuser''"
| "op_type (ResetHWID u) = ''resetuser''"
| "op_type (CreateLicense l d) = ''add''"
| "op_type (DeleteLicense l) = ''delete''"
| "op_type (UseLicense l u) = ''use''"
| "op_type (ExtendSubscription u s d) = ''extend''"
| "op_type GetStats = ''stats''"
| "op_type (SetWebhook x) = ''webhook''"
| "op_type (AddChannel x) = ''addchannel''"
| "op_type (DeleteChannel x) = ''deletechannel''"

fun op_params :: "operation \<Rightarrow> (string \<rightharpoonup> string)" where
  "op_params (GetUserInfo u) = [''username'' \<mapsto> u]"
| "op_params (BanUser u) = [''username'' \<mapsto> u]"
| "op_params (UnbanUser u) = [''username'' \<mapsto> u]"
| "op_params (DeleteUser u) = [''username'' \<mapsto> u]"
| "op_params (ResetHWID u) = [''username'' \<mapsto> u]"
| "op_params (CreateLicense l d) = [''key'' \<mapsto> l, ''days'' \<mapsto> number_toString d]"
| "op_params (DeleteLicense l) = [''key'' \<mapsto> l]"
| "op_params (UseLicense l u) = [''key'' \<mapsto> l, ''username'' \<mapsto> u]"
| "op_params (ExtendSubscription u s d) =
     [''username'' \<mapsto> u, ''subscription'' \<mapsto> s, ''days'' \<mapsto> number_toString d]"
| "op_params GetStats = Map.empty"
| "op_params (SetWebhook x) = [''webhook'' \<mapsto> x]"
| "op_params (AddChannel x) = [''channel'' \<mapsto> x]"
| "op_params (DeleteChannel x) = [''channel'' \<mapsto> x]"

text \<open>
  The request that \<open>makeRequest\<close> sends for a client, a session identifier, a type
  and parameters.
\<close>

definition api_request :: "KeyAuthClient \<Rightarrow> string \<Rightarrow> string \<Rightarrow> (string \<rightharpoonup> string) \<Rightarrow> request" where
  "api_request c sid ty ps =
     Request (url (config c)) ''POST'' post_headers
       ([''type'' \<mapsto> ty, ''sessionid'' \<mapsto> sid, ''name'' \<mapsto> name (config c),
         ''ownerid'' \<mapsto> ownerid (config c)] ++ ps)"

definition is_init :: "request \<Rightarrow> bool" where
  "is_init rq = (req_body rq ''type'' = Some ''init'')"

text \<open>The requests sent between an earlier and a later state of the network.\<close>

definition sent_since :: "world \<Rightarrow> world \<Rightarrow> request list" where
  "sent_since w w' = drop (length (sent w)) (sent w')"

text \<open>
  The init handshake fails: a network error, a status that is not ok, a body that is not
  JSON, a reply without \<^verbatim>\<open>success = true\<close>, or one whose session identifier is missing or
  empty.
\<close>

definition init_failed :: "fetch_result \<Rightarrow> bool" where
  "init_failed res =
     (case res of
        Rejected m \<Rightarrow> True
      | Resolved r \<Rightarrow>
          \<not> ok r \<or>
          (case json_body r of
             Inl m \<Rightarrow> True
           | Inr data \<Rightarrow>
               success data \<noteq> Some True \<or> sessionid data = None \<or> sessionid data = Some []))"

text \<open>A decimal numeral, with an optional minus sign, and the integer it denotes.\<close>

definition is_decimal :: "string \<Rightarrow> bool" where
  "is_decimal s =
     (case s of
        [] \<Rightarrow> False
      | c # cs \<Rightarrow> if c = CHR ''-'' then cs \<noteq> [] \<and> list_all is_digit cs else list_all is_digit s)"

definition int_of_decimal :: "string \<Rightarrow> int" where
  "int_of_decimal s =
     (case s of
        [] \<Rightarrow> 0
      | c # cs \<Rightarrow> if c = CHR ''-'' then - int (decimal_value cs) else int (decimal_value s))"

subsection \<open>Invocations and notifications\<close>

text \<open>
  The operation an invocation reaches: the one its case of the \<^verbatim>\<open>switch\<close> calls when the
  options are there and pass the checks of that case, \<open>None\<close> otherwise.
\<close>

definition string_of :: "interaction \<Rightarrow> string \<Rightarrow> string option" where
  "string_of i k = (case getString (options i) k of Inl e \<Rightarrow> None | Inr s \<Rightarrow> Some s)"

definition integer_of :: "interaction \<Rightarrow> string \<Rightarrow> int option" where
  "integer_of i k = (case getInteger (options i) k of Inl e \<Rightarrow> None | Inr n \<Rightarrow> Some n)"

definition trimmed :: "interaction \<Rightarrow> string \<Rightarrow> string option" where
  "trimmed i k =
     (case string_of i k of
        None \<Rightarrow> None
      | Some s \<Rightarrow> if trim s = [] then None else Some (trim s))"

definition dispatched :: "interaction \<Rightarrow> operation option" where
  "dispatched i =
     (if commandName i = ''user'' then map_option GetUserInfo (trimmed i ''username'')
      else if commandName i = ''ban'' then map_option BanUser (trimmed i ''username'')
      else if commandName i = ''unban'' then map_option UnbanUser (trimmed i ''username'')
      else if commandName i = ''deleteuser'' then map_option DeleteUser (trimmed i ''username'')
      else if commandName i = ''resethwid'' then map_option ResetHWID (trimmed i ''username'')
      else if commandName i = ''createlicense'' then
        (case (string_of i ''license'', integer_of i ''days'') of
           (Some l, Some d) \<Rightarrow> Some (CreateLicense l d) | _ \<Rightarrow> None)
      else if commandName i = ''deletelicense'' then
        map_option DeleteLicense (string_of i ''license'')
      else if commandName i = ''uselicense'' then
        (case (trimmed i ''license'', trimmed i ''username'') of
           (Some l, Some u) \<Rightarrow> Some (UseLicense l u) | _ \<Rightarrow> None)
      else if commandName i = ''extendsub'' then
        (case (trimmed i ''username'', trimmed i ''subscription'', integer_of i ''days'') of
           (Some u, Some s, Some d) \<Rightarrow> Some (ExtendSubscription u s d) | _ \<Rightarrow> None)
      else if commandName i = ''stats'' then Some GetStats
      else None)"

text \<open>The operations whose result is shown by the title, the description and the colour alone.\<close>

fun is_action :: "operation \<Rightarrow> bool" where
  "is_action (BanUser u) = True"
| "is_action (UnbanUser u) = True"
| "is_action (DeleteUser u) = True"
| "is_action (ResetHWID u) = True"
| "is_action (CreateLicense l d) = True"
| "is_action (DeleteLicense l) = True"
| "is_action (UseLicense l u) = True"
| "is_action (ExtendSubscription u s d) = True"
| "is_action _ = False"

text \<open>The arguments of an operation as text, the title and the texts of its notification.\<close>

fun op_args :: "operation \<Rightarrow> string list" where
  "op_args (GetUserInfo u) = [u]"
| "op_args (BanUser u) = [u]"
| "op_args (UnbanUser u) = [u]"
| "op_args (DeleteUser u) = [u]"
| "op_args (ResetHWID u) = [u]"
| "op_args (CreateLicense l d) = [l, number_toString d]"
| "op_args (DeleteLicense l) = [l]"
| "op_args (UseLicense l u) = [l, u]"
| "op_args (ExtendSubscription u s d) = [u, s, number_toString d]"
| "op_args GetStats = []"
| "op_args (SetWebhook x) = [x]"
| "op_args (AddChannel x) = [x]"
| "op_args (DeleteChannel x) = [x]"

fun success_title :: "operation \<Rightarrow> string" where
  "success_title (BanUser u) = '' User Banned''"
| "success_title (UnbanUser u) = '' User Unbanned''"
| "success_title (DeleteUser u) = '' User Deleted''"
| "success_title (ResetHWID u) = '' HWID Reset''"
| "success_title (CreateLicense l d) = '' License Created''"
| "success_title (DeleteLicense l) = '' License Deleted''"
| "success_title (UseLicense l u) = '' License Applied''"
| "success_title (ExtendSubscription u s d) = '' Subscription Extended''"
| "success_title _ = []"

fun success_text :: "operation \<Rightarrow> string" where
  "success_text (BanUser u) = ''User '' @ u @ '' has been banned.''"
| "success_text (UnbanUser u) = ''User '' @ u @ '' has been unbanned.''"
| "success_text (DeleteUser u) = ''User '' @ u @ '' has been deleted.''"
| "success_text (ResetHWID u) = ''HWID for '' @ u @ '' has been reset.''"
| "success_text (CreateLicense l d) =
     ''License '' @ l @ '' created for '' @ number_toString d @ '' days.''"
| "success_text (DeleteLicense l) = ''License '' @ l @ '' has been deleted.''"
| "success_text (UseLicense l u) = ''License '' @ l @ '' applied to '' @ u @ ''.''"
| "success_text (ExtendSubscription u s d) =
     ''Subscription '' @ s @ '' for '' @ u @ '' extended by '' @ number_toString d @ '' days.''"
| "success_text _ = []"

fun failure_text :: "operation \<Rightarrow> string" where
  "failure_text (GetUserInfo u) = ''User not found''"
| "failure_text (BanUser u) = ''Failed to ban user''"
| "failure_text (UnbanUser u) = ''Failed to unban user''"
| "failure_text (DeleteUser u) = ''Failed to delete user''"
| "failure_text (ResetHWID u) = ''Failed to reset HWID''"
| "failure_text (CreateLicense l d) = ''Failed to create license''"
| "failure_text (DeleteLicense l) = ''Failed to delete license''"
| "failure_text (UseLicense l u) = ''Failed to apply license''"
| "failure_text (ExtendSubscription u s d) = ''Failed to extend subscription''"
| "failure_text GetStats = ''Failed to fetch statistics''"
| "failure_text _ = []"

text \<open>A negative notification is red and titled with the cross; a positive one is neither.\<close>

definition negative :: "embed \<Rightarrow> bool" where
  "negative e = (color e = 0xFF0000 \<and> take 3 (title e) = cross_mark)"

definition positive :: "embed \<Rightarrow> bool" where
  "positive e = (color e \<noteq> 0xFF0000 \<and> take 3 (title e) \<noteq> cross_mark)"

text \<open>The embed with a given title, description and colour, and the red one titled Error.\<close>

definition embed_of :: "string \<Rightarrow> string \<Rightarrow> nat \<Rightarrow> embed" where
  "embed_of t d c = \<lparr>title = t, description = d, color = c, embed_fields = []\<rparr>"

definition error_notice :: "string \<Rightarrow> embed" where
  "error_notice d = embed_of (cross_mark @ '' Error'') d 0xFF0000"

text \<open>
  The title, the description and the colour with which the result of an action is shown,
  and the description with which a lookup that has nothing to show is answered.
\<close>

definition action_title :: "operation \<Rightarrow> KeyAuthResponse \<Rightarrow> string" where
  "action_title x result =
     (if succeeded result then check_mark @ success_title x else cross_mark @ '' Error'')"

definition action_text :: "operation \<Rightarrow> KeyAuthResponse \<Rightarrow> string" where
  "action_text x result =
     or_else (message result) (if succeeded result then success_text x else failure_text x)"

definition action_color :: "KeyAuthResponse \<Rightarrow> nat" where
  "action_color result = (if succeeded result then 0x00FF00 else 0xFF0000)"

definition lookup_text :: "operation \<Rightarrow> KeyAuthResponse \<Rightarrow> string" where
  "lookup_text x result = or_else (message result) (failure_text x)"

text \<open>
  What the handler does with the result of the operation it reached: the error it throws,
  if any, and the state after its reply.
\<close>

fun shown :: "host \<Rightarrow> operation \<Rightarrow> bot \<Rightarrow> KeyAuthResponse \<Rightarrow> exn option \<times> bot" where
  "shown h (GetUserInfo u) b result =
     (if succeeded result \<and> truthy (info result)
      then reply_with b False (user_embed h u (the (info result)))
      else reply_with b False
             (createEmbed (cross_mark @ '' Error'') (lookup_text (GetUserInfo u) result) 0xFF0000))"
| "shown h GetStats b result =
     (if succeeded result \<and> truthy (info result)
      then reply_with b False (stats_embed (the (info result)))
      else reply_with b False
             (createEmbed (cross_mark @ '' Error'') (lookup_text GetStats result) 0xFF0000))"
| "shown h x b result =
     reply_with b False
       (createEmbed (action_title x result) (action_text x result) (action_color result))"

text \<open>The call of the operation that an invocation reached, and the showing of its result.\<close>

definition conclude :: "host \<Rightarrow> bot \<Rightarrow> operation \<Rightarrow> exn option \<times> bot" where
  "conclude h b x =
     (case perform h (keyAuth b) (net b) x of
        (Inl e, c1, w1) \<Rightarrow> (Some e, after_call b c1 w1)
      | (Inr result, c1, w1) \<Rightarrow> shown h x (after_call b c1 w1) result)"

text \<open>The one embed of the reply made last.\<close>

definition last_embed :: "bot \<Rightarrow> embed option" where
  "last_embed b =
     (if replies b = [] then None
      else (case embeds (last (replies b)) of [e] \<Rightarrow> Some e | _ \<Rightarrow> None))"

text \<open>The value of the first field of an embed with a given name.\<close>

definition field_named :: "embed \<Rightarrow> string \<Rightarrow> json option" where
  "field_named e k = map_option field_value (find (\<lambda>f. field_name f = k) (embed_fields e))"

subsection \<open>Example surroundings\<close>

text \<open>
  A server that answers the init request with the session \<^verbatim>\<open>S1\<close> and every other request
  with a given response; one whose init request fails at the network; identifiers
  \<^verbatim>\<open>uuid-0\<close>, \<^verbatim>\<open>uuid-1\<close>, and so on; a runtime that parses no string as a date and
  writes every date as its number of milliseconds.
\<close>

definition init_reply :: fetch_result where
  "init_reply =
     Resolved (Response 200 ''OK''
       (Inr \<lparr>success = Some True, sessionid = Some ''S1'', message = None, info = None\<rparr>))"

definition server :: "fetch_result \<Rightarrow> request list \<Rightarrow> request \<Rightarrow> fetch_result" where
  "server res history rq = (if is_init rq then init_reply else res)"

definition offline_init :: "fetch_result \<Rightarrow> request list \<Rightarrow> request \<Rightarrow> fetch_result" where
  "offline_init res history rq = (if is_init rq then Rejected ''fetch failed'' else res)"

definition example_host :: "(request list \<Rightarrow> request \<Rightarrow> fetch_result) \<Rightarrow> host" where
  "example_host up =
     \<lparr>upstream = up, randomUUID = (\<lambda>k. ''uuid-'' @ nat_toString k),
      dateParse = (\<lambda>s. None), dateFormat = (\<lambda>t. number_toString t)\<rparr>"

definition json_reply :: "KeyAuthResponse \<Rightarrow> fetch_result" where
  "json_reply data = Resolved (Response 200 ''OK'' (Inr data))"

definition example_env :: "string \<rightharpoonup> string" where
  "example_env = [''KEYAUTH_NAME'' \<mapsto> ''app'', ''KEYAUTH_OWNER_ID'' \<mapsto> ''owner'',
                  ''ADMIN_IDS'' \<mapsto> ''42, 43'']"

definition example_client :: KeyAuthClient where
  "example_client =
     \<lparr>config = \<lparr>name = ''app'', ownerid = ''owner'', version = ''2.0'',
                 url = ''https://keyauth.win/api/1.3/''\<rparr>,
      sessionId = None\<rparr>"

definition example_world :: world where
  "example_world = \<lparr>sent = [], uuid_calls = 0\<rparr>"

definition example_bot :: bot where
  "example_bot =
     \<lparr>keyAuth = example_client, adminIds = [''42'', ''43''], net = example_world, replies = []\<rparr>"

definition invocation :: "string \<Rightarrow> string \<Rightarrow> (string \<rightharpoonup> option_value) \<Rightarrow> interaction" where
  "invocation caller cmd opts =
     \<lparr>isChatInputCommand = True, user_id = caller, commandName = cmd, options = opts\<rparr>"

text \<open>
  Inputs of the examples below: a server answering with success and nothing else; the
  statistics query, the user lookup and the ban of admin \<^verbatim>\<open>42\<close>; a blank license for
  \<^verbatim>\<open>createlicense\<close>.
\<close>

definition bare_success :: KeyAuthResponse where
  "bare_success = \<lparr>success = Some True, sessionid = None, message = None, info = None\<rparr>"

definition bare_host :: host where
  "bare_host = example_host (server (json_reply bare_success))"

definition stats_invocation :: interaction where
  "stats_invocation = invocation ''42'' ''stats'' Map.empty"

definition user_invocation :: interaction where
  "user_invocation = invocation ''42'' ''user'' [''username'' \<mapsto> StringOption ''alice'']"

definition blank_license_invocation :: interaction where
  "blank_license_invocation =
     invocation ''42'' ''createlicense''
       [''license'' \<mapsto> StringOption ''   '', ''days'' \<mapsto> IntegerOption 30]"

text \<open>A failing answer with a message, and the ban of admin \<^verbatim>\<open>42\<close> that receives it.\<close>

definition refusal :: KeyAuthResponse where
  "refusal = \<lparr>success = Some False, sessionid = None, message = Some ''No such user'',
               info = None\<rparr>"

definition refusing_host :: host where
  "refusing_host = example_host (server (json_reply refusal))"

definition ban_invocation :: interaction where
  "ban_invocation = invocation ''42'' ''ban'' [''username'' \<mapsto> StringOption '' alice '']"

text \<open>
  A user lookup answered with success and the record of \<^verbatim>\<open>alice\<close>. A text of 4097
  letters, one more than a description may have; a server answering every request with
  status 500 and that text as the status text; and one answering with success and that text
  as the message.
\<close>

definition alice_info :: json where
  "alice_info = JObj [(''username'', JStr ''alice''), (''ip'', JStr ''1.2.3.4'')]"

definition alice_found :: KeyAuthResponse where
  "alice_found =
     \<lparr>success = Some True, sessionid = None, message = None, info = Some alice_info\<rparr>"

definition alice_host :: host where
  "alice_host = example_host (server (json_reply alice_found))"

definition long_text :: string where
  "long_text = replicate 4097 (CHR ''x'')"

definition long_status_host :: host where
  "long_status_host = example_host (server (Resolved (Response 500 long_text (Inl ''no body''))))"



text \<open>
  On the example, the client once it holds the session \<^verbatim>\<open>S1\<close>, and the network and the
  state once the init request and the request of an operation are sent.
\<close>

definition session_client :: KeyAuthClient where
  "session_client = example_client\<lparr>sessionId := Some ''S1''\<rparr>"

definition requested :: "operation \<Rightarrow> world" where
  "requested x =
     example_world\<lparr>sent := [init_request (config example_client),
                              api_request session_client ''S1'' (op_type x) (op_params x)]\<rparr>"

definition answered :: "operation \<Rightarrow> bot" where
  "answered x = after_call example_bot session_client (requested x)"

section \<open>The client: lemmas\<close>

text \<open>Every operation is one call of \<open>makeRequest\<close> with its type and parameters.\<close>

lemma perform_makeRequest: "perform h c w x = makeRequest h c w (op_type x) (op_params x)"
  by (cases x)
     (simp_all add: getUserInfo_def banUser_def unbanUser_def deleteUser_def resetHWID_def
        createLicense_def deleteLicense_def useLicense_def extendSubscription_def getStats_def
        setWebhook_def addChannel_def deleteChannel_def)

lemma makeRequest_unfold:
  assumes "getSessionId h c w = (sid, c1, w1)"
  shows "makeRequest h c w ty ps =
           (case request_try (upstream h (sent w1) (api_request c1 sid ty ps)) of
              Inl e \<Rightarrow> Inl (Error (''KeyAuth API request failed: '' @ exn_message e))
            | Inr d \<Rightarrow> Inr d,
            c1, w1\<lparr>sent := sent w1 @ [api_request c1 sid ty ps]\<rparr>)"
  using assms by (simp add: makeRequest_def fetch_def api_request_def Let_def)

lemma getSessionId_cached: "sessionId c = Some s \<Longrightarrow> getSessionId h c w = (s, c, w)"
  by (simp add: getSessionId_def)

lemma init_try_failed: "init_failed res \<longleftrightarrow> (\<forall>s. init_try res \<noteq> Inr (Some s))"
  by (auto simp: init_failed_def init_try_def or_else_def
      split: fetch_result.splits sum.splits option.splits if_splits)

lemma getSessionId_fallback:
  assumes "sessionId c = None" and "init_failed (upstream h (sent w) (init_request (config c)))"
  shows "getSessionId h c w =
           (randomUUID h (uuid_calls w),
            c\<lparr>sessionId := Some (randomUUID h (uuid_calls w))\<rparr>,
            w\<lparr>sent := sent w @ [init_request (config c)], uuid_calls := Suc (uuid_calls w)\<rparr>)"
proof -
  from assms(2) have "\<forall>s. init_try (upstream h (sent w) (init_request (config c))) \<noteq> Inr (Some s)"
    by (simp add: init_try_failed)
  then show ?thesis using assms(1)
    by (auto simp: getSessionId_def fetch_def Let_def split: sum.splits option.splits)
qed

lemma getSessionId_server:
  assumes "sessionId c = None" and "\<not> init_failed (upstream h (sent w) (init_request (config c)))"
  shows "\<exists>s. s \<noteq> [] \<and> getSessionId h c w =
           (s, c\<lparr>sessionId := Some s\<rparr>, w\<lparr>sent := sent w @ [init_request (config c)]\<rparr>)"
  using assms
  by (auto simp: getSessionId_def fetch_def init_failed_def init_try_def or_else_def ok_def Let_def
      split: fetch_result.splits sum.splits option.splits if_splits)

lemma getSessionId_fresh:
  assumes "sessionId c = None" and "getSessionId h c w = (s, c1, w1)"
  shows "c1 = c\<lparr>sessionId := Some s\<rparr> \<and> sent w1 = sent w @ [init_request (config c)]"
proof (cases "init_failed (upstream h (sent w) (init_request (config c)))")
  case True
  from getSessionId_fallback[OF assms(1) True] assms(2) show ?thesis by auto
next
  case False
  from getSessionId_server[OF assms(1) False] assms(2) show ?thesis by auto
qed

subsection \<open>The session\<close>

lemma is_init_init_request: "is_init (init_request cfg)"
  by (simp add: is_init_def init_request_def)

lemma op_params_reserved:
  "op_params x ''type'' = None" "op_params x ''sessionid'' = None"
  "op_params x ''name'' = None" "op_params x ''ownerid'' = None"
  by (cases x; simp)+

lemma op_type_not_init: "op_type x \<noteq> ''init''"
  by (cases x) simp_all

lemma api_request_body:
  "req_body (api_request c sid (op_type x) (op_params x)) ''type'' = Some (op_type x)"
  "req_body (api_request c sid (op_type x) (op_params x)) ''sessionid'' = Some sid"
  "req_body (api_request c sid (op_type x) (op_params x)) ''name'' = Some (name (config c))"
  "req_body (api_request c sid (op_type x) (op_params x)) ''ownerid'' = Some (ownerid (config c))"
  by (simp_all add: api_request_def map_add_def op_params_reserved)

lemma not_init_api_request: "\<not> is_init (api_request c sid (op_type x) (op_params x))"
  by (simp add: is_init_def api_request_body op_type_not_init)

lemma perform_cached:
  assumes "sessionId c = Some s" and "perform h c w x = (r, c1, w1)"
  shows "c1 = c \<and> sent w1 = sent w @ [api_request c s (op_type x) (op_params x)]
         \<and> uuid_calls w1 = uuid_calls w"
  using assms(2) makeRequest_unfold[OF getSessionId_cached[OF assms(1)], of h w "op_type x" "op_params x"]
  by (auto simp: perform_makeRequest)

lemma perform_fresh:
  assumes "sessionId c = None" and "perform h c w x = (r, c1, w1)"
  shows "\<exists>s. c1 = c\<lparr>sessionId := Some s\<rparr> \<and>
             sent w1 = sent w @ [init_request (config c), api_request c1 s (op_type x) (op_params x)]"
proof -
  obtain s c' w' where g: "getSessionId h c w = (s, c', w')"
    by (cases "getSessionId h c w") auto
  from getSessionId_fresh[OF assms(1) g]
  have c': "c' = c\<lparr>sessionId := Some s\<rparr>" and w': "sent w' = sent w @ [init_request (config c)]"
    by auto
  from assms(2) makeRequest_unfold[OF g, of "op_type x" "op_params x"]
  have "c1 = c'" and "sent w1 = sent w' @ [api_request c' s (op_type x) (op_params x)]"
    by (auto simp: perform_makeRequest)
  with c' w' show ?thesis by auto
qed

text \<open>With a cached session the client never changes and sends no init request.\<close>

lemma perform_all_cached:
  assumes "sessionId c = Some s" and "perform_all h c w xs = (c2, w2)"
  shows "c2 = c \<and> (\<exists>rs. sent w2 = sent w @ rs \<and>
           (\<forall>rq\<in>set rs. \<not> is_init rq \<and> req_body rq ''sessionid'' = Some s))"
  using assms
proof (induction xs arbitrary: w)
  case Nil
  then show ?case by simp
next
  case (Cons x xs)
  obtain r c1 w1 where p: "perform h c w x = (r, c1, w1)"
    by (cases "perform h c w x") auto
  from perform_cached[OF Cons.prems(1) p]
  have c1: "c1 = c" and w1: "sent w1 = sent w @ [api_request c s (op_type x) (op_params x)]"
    by auto
  from Cons.prems(2) p c1 have "perform_all h c w1 xs = (c2, w2)" by simp
  from Cons.IH[OF Cons.prems(1) this] obtain rs where
    rs: "c2 = c" "sent w2 = sent w1 @ rs"
        "\<forall>rq\<in>set rs. \<not> is_init rq \<and> req_body rq ''sessionid'' = Some s"
    by auto
  let ?rs = "api_request c s (op_type x) (op_params x) # rs"
  have "sent w2 = sent w @ ?rs" using rs(2) w1 by simp
  moreover have "\<forall>rq\<in>set ?rs. \<not> is_init rq \<and> req_body rq ''sessionid'' = Some s"
    using rs(3) by (simp add: not_init_api_request api_request_body)
  ultimately show ?case using rs(1) by blast
qed

text \<open>
  \<^bold>\<open>C3.\<close> A client without a session that performs an operation, and then any further
  operations one after the other, has a session from the first operation on and keeps that
  same one; among all the requests of the run exactly one is the init request, and every
  other request carries that session identifier.
\<close>

theorem session_acquired_once:
  assumes "sessionId c = None"
    and "perform h c w x = (r, c1, w1)"
    and "perform_all h c1 w1 xs = (c2, w2)"
  shows "\<exists>sid. sessionId c1 = Some sid \<and> sessionId c2 = Some sid
           \<and> length (filter is_init (sent_since w w2)) = 1
           \<and> (\<forall>rq\<in>set (sent_since w w2). \<not> is_init rq \<longrightarrow> req_body rq ''sessionid'' = Some sid)"
proof -
  from perform_fresh[OF assms(1,2)] obtain sid where
    c1: "c1 = c\<lparr>sessionId := Some sid\<rparr>" and
    w1: "sent w1 = sent w @ [init_request (config c), api_request c1 sid (op_type x) (op_params x)]"
    by auto
  have s1: "sessionId c1 = Some sid" using c1 by simp
  from perform_all_cached[OF s1 assms(3)] obtain rs where
    rs: "c2 = c1" "sent w2 = sent w1 @ rs"
        "\<forall>rq\<in>set rs. \<not> is_init rq \<and> req_body rq ''sessionid'' = Some sid"
    by auto
  have since: "sent_since w w2 =
      init_request (config c) # api_request c1 sid (op_type x) (op_params x) # rs"
    using w1 rs(2) by (simp add: sent_since_def)
  have "filter is_init rs = []" using rs(3) by (simp add: filter_empty_conv)
  then have "length (filter is_init (sent_since w w2)) = 1"
    by (simp add: since is_init_init_request not_init_api_request)
  moreover have "\<forall>rq\<in>set (sent_since w w2). \<not> is_init rq \<longrightarrow> req_body rq ''sessionid'' = Some sid"
    using rs(3) by (simp add: since is_init_init_request api_request_body)
  ultimately show ?thesis using s1 rs(1) by blast
qed

subsection \<open>Evaluation of the examples\<close>

lemmas client_defs =
  getUserInfo_def banUser_def unbanUser_def deleteUser_def resetHWID_def
  createLicense_def deleteLicense_def useLicense_def extendSubscription_def getStats_def
  setWebhook_def addChannel_def deleteChannel_def
  makeRequest_def getSessionId_def fetch_def init_try_def request_try_def ok_def or_else_def
  init_request_def is_init_def Let_def

lemmas example_defs =
  example_host_def server_def offline_init_def init_reply_def json_reply_def
  example_client_def example_world_def example_bot_def invocation_def

text \<open>
  The run of C3 on the example: a ban, a statistics query and a deletion against a server
  that issues the session \<^verbatim>\<open>S1\<close> and then fails every request at the network.
\<close>

theorem session_acquired_once_witness:
  "let h = example_host (server (Rejected ''down''));
       p = perform h example_client example_world (BanUser ''alice'');
       q = perform_all h (fst (snd p)) (snd (snd p)) [GetStats, DeleteLicense ''K'']
   in sessionId example_client = None \<and> sessionId (fst q) = Some ''S1'' \<and>
      (\<exists>sid. sessionId (fst (snd p)) = Some sid \<and> sessionId (fst q) = Some sid
         \<and> length (filter is_init (sent_since example_world (snd q))) = 1
         \<and> (\<forall>rq\<in>set (sent_since example_world (snd q)).
               \<not> is_init rq \<longrightarrow> req_body rq ''sessionid'' = Some sid))"
proof -
  let ?h = "example_host (server (Rejected ''down''))"
  let ?p = "perform ?h example_client example_world (BanUser ''alice'')"
  let ?q = "perform_all ?h (fst (snd ?p)) (snd (snd ?p)) [GetStats, DeleteLicense ''K'']"
  have h1: "sessionId example_client = None"
    by (simp add: example_client_def)
  have h2: "?p = (fst ?p, fst (snd ?p), snd (snd ?p))" by simp
  have h3: "?q = (fst ?q, snd ?q)" by simp
  have s1: "sessionId (fst ?q) = Some ''S1''"
    by (simp add: client_defs example_defs)
  from session_acquired_once [OF h1 h2 h3] h1 s1 show ?thesis
    unfolding Let_def by blast
qed

subsection \<open>Decimal numerals\<close>

lemma digit_char_digit: "d < 10 \<Longrightarrow> is_digit (digit_char d) \<and> digit_value (digit_char d) = d"
proof -
  assume "d < 10"
  then have "d \<in> {0,1,2,3,4,5,6,7,8,9}" by auto
  then show ?thesis
    by (auto simp: digit_char_def is_digit_def digit_value_def)
qed

lemma nat_toString_nonempty: "nat_toString n \<noteq> []"
  by (subst nat_toString.simps) simp

lemma nat_toString_digits: "list_all is_digit (nat_toString n)"
proof (induction n rule: nat_toString.induct)
  case (1 n)
  show ?case
  proof (cases "n < 10")
    case True
    then show ?thesis by (subst nat_toString.simps) (simp add: digit_char_digit)
  next
    case False
    with 1 show ?thesis by (subst nat_toString.simps) (simp add: digit_char_digit)
  qed
qed

lemma decimal_value_snoc: "decimal_value (s @ [c]) = 10 * decimal_value s + digit_value c"
  by (simp add: decimal_value_def)

lemma decimal_value_nat_toString: "decimal_value (nat_toString n) = n"
proof (induction n rule: nat_toString.induct)
  case (1 n)
  show ?case
  proof (cases "n < 10")
    case True
    then show ?thesis
      by (subst nat_toString.simps) (simp add: digit_char_digit decimal_value_def)
  next
    case False
    with 1 show ?thesis
      by (subst nat_toString.simps) (simp add: digit_char_digit decimal_value_snoc)
  qed
qed

lemma nat_toString_hd: "hd (nat_toString n) \<noteq> CHR ''-''"
proof -
  have "is_digit (hd (nat_toString n))"
    using nat_toString_digits[of n] nat_toString_nonempty[of n]
    by (cases "nat_toString n") auto
  then show ?thesis by (auto simp: is_digit_def)
qed

lemma number_toString_decimal:
  "is_decimal (number_toString d) \<and> int_of_decimal (number_toString d) = d"
proof (cases "d < 0")
  case True
  then show ?thesis
    by (simp add: number_toString_def is_decimal_def int_of_decimal_def nat_toString_nonempty
        nat_toString_digits decimal_value_nat_toString)
next
  case False
  obtain c cs where s: "nat_toString (nat d) = c # cs"
    using nat_toString_nonempty[of "nat d"] by (cases "nat_toString (nat d)") auto
  with nat_toString_hd[of "nat d"] have "c \<noteq> CHR ''-''" by simp
  with False s nat_toString_digits[of "nat d"] decimal_value_nat_toString[of "nat d"]
  show ?thesis
    by (simp add: number_toString_def is_decimal_def int_of_decimal_def)
qed

subsection \<open>Fallback of the session\<close>

lemma init_failed_kinds:
  "init_failed (Rejected m)"
  "\<not> ok r \<Longrightarrow> init_failed (Resolved r)"
  "json_body r = Inl m \<Longrightarrow> init_failed (Resolved r)"
  "json_body r = Inr data \<Longrightarrow> success data \<noteq> Some True \<Longrightarrow> init_failed (Resolved r)"
  "json_body r = Inr data \<Longrightarrow> sessionid data = None \<or> sessionid data = Some [] \<Longrightarrow> init_failed (Resolved r)"
  by (auto simp: init_failed_def)

text \<open>
  \<^bold>\<open>C4.\<close> When the client has no session and the init handshake fails in any of the five
  ways, \<open>getSessionId\<close> returns the identifier drawn from \<open>randomUUID\<close> and caches it, so
  that the next call returns it without a request; the operation that asked for the session
  sends its own request with that identifier and ends as the answer to that request
  decides, with the parsed body when the answer is ok.
\<close>

theorem init_failure_falls_back:
  assumes "sessionId c = None"
    and "init_failed (upstream h (sent w) (init_request (config c)))"
  shows "let sid = randomUUID h (uuid_calls w);
             c1 = c\<lparr>sessionId := Some sid\<rparr>;
             w1 = w\<lparr>sent := sent w @ [init_request (config c)], uuid_calls := Suc (uuid_calls w)\<rparr>;
             rq = api_request c1 sid (op_type x) (op_params x);
             res = upstream h (sent w1) rq
         in getSessionId h c w = (sid, c1, w1)
            \<and> getSessionId h c1 w1 = (sid, c1, w1)
            \<and> perform h c w x =
                (case request_try res of
                   Inl e \<Rightarrow> Inl (Error (''KeyAuth API request failed: '' @ exn_message e))
                 | Inr data \<Rightarrow> Inr data,
                 c1, w1\<lparr>sent := sent w1 @ [rq]\<rparr>)
            \<and> req_body rq ''sessionid'' = Some sid
            \<and> (\<forall>r data. res = Resolved r \<and> ok r \<and> json_body r = Inr data
                  \<longrightarrow> fst (perform h c w x) = Inr data)"
proof -
  let ?sid = "randomUUID h (uuid_calls w)"
  let ?c1 = "c\<lparr>sessionId := Some ?sid\<rparr>"
  let ?w1 = "w\<lparr>sent := sent w @ [init_request (config c)], uuid_calls := Suc (uuid_calls w)\<rparr>"
  let ?rq = "api_request ?c1 ?sid (op_type x) (op_params x)"
  have g: "getSessionId h c w = (?sid, ?c1, ?w1)"
    by (rule getSessionId_fallback[OF assms])
  have g1: "getSessionId h ?c1 ?w1 = (?sid, ?c1, ?w1)"
    by (rule getSessionId_cached) simp
  have p: "perform h c w x =
      (case request_try (upstream h (sent ?w1) ?rq) of
         Inl e \<Rightarrow> Inl (Error (''KeyAuth API request failed: '' @ exn_message e))
       | Inr data \<Rightarrow> Inr data,
       ?c1, ?w1\<lparr>sent := sent ?w1 @ [?rq]\<rparr>)"
    unfolding perform_makeRequest by (rule makeRequest_unfold[OF g])
  have fin: "\<forall>r data. upstream h (sent ?w1) ?rq = Resolved r \<and> ok r \<and> json_body r = Inr data
                  \<longrightarrow> fst (perform h c w x) = Inr data"
    unfolding p by (simp add: request_try_def)
  show ?thesis
    unfolding Let_def using g g1 p fin api_request_body(2) [of ?c1 ?sid x] by blast
qed

text \<open>
  The example: the init request fails at the network, the ban is answered with success.
\<close>

theorem init_failure_falls_back_witness:
  "let h = example_host (offline_init (json_reply
             \<lparr>success = Some True, sessionid = None, message = Some ''banned'', info = None\<rparr>));
       p = perform h example_client example_world (BanUser ''alice'')
   in sessionId example_client = None
      \<and> init_failed (upstream h (sent example_world) (init_request (config example_client)))
      \<and> fst p = Inr \<lparr>success = Some True, sessionid = None, message = Some ''banned'', info = None\<rparr>
      \<and> sessionId (fst (snd p)) = Some ''uuid-0''
      \<and> map (\<lambda>rq. (req_body rq ''type'', req_body rq ''sessionid'')) (sent (snd (snd p)))
          = [(Some ''init'', None), (Some ''ban'', Some ''uuid-0'')]"
proof -
  let ?d = "\<lparr>success = Some True, sessionid = None, message = Some ''banned'', info = None\<rparr>"
  let ?h = "example_host (offline_init (json_reply ?d))"
  have h1: "sessionId example_client = None"
    by (simp add: example_client_def)
  have h2: "init_failed (upstream ?h (sent example_world) (init_request (config example_client)))"
    by (simp add: init_failed_def example_defs init_request_def is_init_def)
  have u: "randomUUID ?h (uuid_calls example_world) = ''uuid-0''"
    by (simp add: example_defs nat_toString.simps digit_char_def)
  from init_failure_falls_back [OF h1 h2, of "BanUser ''alice''"]
  have "perform ?h example_client example_world (BanUser ''alice'') =
      (Inr ?d, example_client\<lparr>sessionId := Some ''uuid-0''\<rparr>,
       example_world\<lparr>sent := [init_request (config example_client),
          api_request (example_client\<lparr>sessionId := Some ''uuid-0''\<rparr>) ''uuid-0'' ''ban''
            [''username'' \<mapsto> ''alice'']],
        uuid_calls := Suc 0\<rparr>)"
    unfolding Let_def u
    by (simp add: example_defs request_try_def ok_def is_init_def api_request_def)
  with h1 h2 show ?thesis
    unfolding Let_def by (simp add: init_request_def api_request_def)
qed

subsection \<open>The body of a request\<close>

text \<open>
  \<^bold>\<open>C7.\<close> The request that \<open>makeRequest\<close> sends last has the keys \<^verbatim>\<open>type\<close>,
  \<^verbatim>\<open>sessionid\<close>, \<^verbatim>\<open>name\<close> and \<^verbatim>\<open>ownerid\<close> and every extra parameter with its value;
  for each operation the four keys hold the operation's type, the client's session, and the
  configured name and owner. The day counts of \<open>createLicense\<close> and \<open>extendSubscription\<close>
  are in the body as \<open>number_toString days\<close>, which is a decimal numeral denoting \<open>days\<close>.
\<close>

theorem request_body_keys:
  "(let w1 = snd (snd (makeRequest h c w ty ps)); rq = last (sent w1)
    in {''type'', ''sessionid'', ''name'', ''ownerid''} \<union> dom ps \<subseteq> dom (req_body rq)
       \<and> ps \<subseteq>\<^sub>m req_body rq)
   \<and> (let c1 = fst (snd (perform h c w x)); rq = last (sent (snd (snd (perform h c w x))))
      in req_body rq ''type'' = Some (op_type x)
         \<and> req_body rq ''sessionid'' = sessionId c1
         \<and> req_body rq ''name'' = Some (name (config c))
         \<and> req_body rq ''ownerid'' = Some (ownerid (config c))
         \<and> op_params x \<subseteq>\<^sub>m req_body rq)
   \<and> (let rq = last (sent (snd (snd (createLicense h c w license days))))
      in req_body rq ''key'' = Some license
         \<and> req_body rq ''days'' = Some (number_toString days))
   \<and> (let rq = last (sent (snd (snd (extendSubscription h c w username subscription days))))
      in req_body rq ''username'' = Some username
         \<and> req_body rq ''subscription'' = Some subscription
         \<and> req_body rq ''days'' = Some (number_toString days))
   \<and> is_decimal (number_toString days) \<and> int_of_decimal (number_toString days) = days"
proof -
  obtain sid c1 w1 where g: "getSessionId h c w = (sid, c1, w1)"
    by (cases "getSessionId h c w") auto
  have c1: "c1 = c\<lparr>sessionId := Some sid\<rparr>"
  proof (cases "sessionId c")
    case None
    from getSessionId_fresh[OF None g] show ?thesis by simp
  next
    case (Some s)
    from getSessionId_cached[OF Some, of h w] g Some show ?thesis by auto
  qed
  have last_rq: "last (sent (snd (snd (makeRequest h c w t q)))) = api_request c1 sid t q" for t q
    by (simp add: makeRequest_unfold[OF g])
  have a: "{''type'', ''sessionid'', ''name'', ''ownerid''} \<union> dom ps \<subseteq> dom (req_body (api_request c1 sid ty ps))"
    by (auto simp: api_request_def)
  have b: "q \<subseteq>\<^sub>m req_body (api_request c1 sid t q)" for t q
    by (simp add: api_request_def)
  have p: "fst (snd (perform h c w x)) = c1"
    by (simp add: perform_makeRequest makeRequest_unfold[OF g])
  show ?thesis
    unfolding Let_def perform_makeRequest createLicense_def extendSubscription_def last_rq
    using a b c1 number_toString_decimal[of days]
    by (simp add: api_request_body makeRequest_unfold[OF g]) (simp add: api_request_def)
qed

text \<open>The request of \<^verbatim>\<open>createLicense("ABC-123", 30)\<close> on the example.\<close>

theorem request_body_keys_witness:
  "let h = example_host (server (Rejected ''down''));
       rq = last (sent (snd (snd (createLicense h example_client example_world ''ABC-123'' 30))))
   in req_body rq ''key'' = Some ''ABC-123'' \<and> req_body rq ''days'' = Some ''30''
      \<and> req_body rq ''type'' = Some ''add'' \<and> req_body rq ''sessionid'' = Some ''S1''
      \<and> req_body rq ''name'' = Some ''app'' \<and> req_body rq ''ownerid'' = Some ''owner''"
proof -
  let ?h = "example_host (server (Rejected ''down''))"
  have n: "number_toString 30 = ''30''"
    by (simp add: number_toString_def nat_toString.simps digit_char_def)
  have s: "sessionId (fst (snd (perform ?h example_client example_world (CreateLicense ''ABC-123'' 30))))
             = Some ''S1''"
    by (simp add: client_defs example_defs)
  from request_body_keys [of ?h example_client example_world "''add''" Map.empty
      "CreateLicense ''ABC-123'' 30" "''ABC-123''" 30 "''u''" "''s''"] n s
  show ?thesis
    unfolding Let_def by (simp add: example_client_def)
qed

subsection \<open>Construction\<close>

text \<open>
  \<^bold>\<open>C9.\<close> When the application name or the owner id is missing or empty in the environment,
  the constructor throws, and so does loading the module, which therefore leaves no state in
  which a request could be sent. When both are there, the constructor gives a client without
  a session, carrying both values, the version \<^verbatim>\<open>2.0\<close> and the URL
  \<^verbatim>\<open>https://keyauth.win/api/1.3/\<close> unless the environment sets them to a non-empty text;
  the state after loading has sent no request.
\<close>

theorem constructor_fails_fast:
  "((env ''KEYAUTH_NAME'' = None \<or> env ''KEYAUTH_NAME'' = Some []
      \<or> env ''KEYAUTH_OWNER_ID'' = None \<or> env ''KEYAUTH_OWNER_ID'' = Some [])
     \<longrightarrow> (\<exists>e. new_KeyAuthClient env = Inl e \<and> startup env = Inl e))
   \<and> (\<forall>n ow. env ''KEYAUTH_NAME'' = Some n \<and> n \<noteq> [] \<and> env ''KEYAUTH_OWNER_ID'' = Some ow \<and> ow \<noteq> []
        \<longrightarrow> (\<exists>c b. new_KeyAuthClient env = Inr c \<and> startup env = Inr b \<and> keyAuth b = c
               \<and> sent (net b) = [] \<and> replies b = [] \<and> sessionId c = None
               \<and> name (config c) = n \<and> ownerid (config c) = ow
               \<and> (env ''KEYAUTH_VERSION'' = None \<or> env ''KEYAUTH_VERSION'' = Some []
                    \<longrightarrow> version (config c) = ''2.0'')
               \<and> (\<forall>v. env ''KEYAUTH_VERSION'' = Some v \<and> v \<noteq> [] \<longrightarrow> version (config c) = v)
               \<and> (env ''KEYAUTH_URL'' = None \<or> env ''KEYAUTH_URL'' = Some []
                    \<longrightarrow> url (config c) = ''https://keyauth.win/api/1.3/'')
               \<and> (\<forall>u. env ''KEYAUTH_URL'' = Some u \<and> u \<noteq> [] \<longrightarrow> url (config c) = u)))"
proof (intro conjI allI impI)
  assume "env ''KEYAUTH_NAME'' = None \<or> env ''KEYAUTH_NAME'' = Some []
      \<or> env ''KEYAUTH_OWNER_ID'' = None \<or> env ''KEYAUTH_OWNER_ID'' = Some []"
  then have "or_else (env ''KEYAUTH_NAME'') [] = [] \<or> or_else (env ''KEYAUTH_OWNER_ID'') [] = []"
    by (auto simp: or_else_def)
  then show "\<exists>e. new_KeyAuthClient env = Inl e \<and> startup env = Inl e"
    by (auto simp: new_KeyAuthClient_def startup_def Let_def)
next
  fix n ow
  assume a: "env ''KEYAUTH_NAME'' = Some n \<and> n \<noteq> [] \<and> env ''KEYAUTH_OWNER_ID'' = Some ow \<and> ow \<noteq> []"
  then have "or_else (env ''KEYAUTH_NAME'') [] = n" "or_else (env ''KEYAUTH_OWNER_ID'') [] = ow"
    "n \<noteq> []" "ow \<noteq> []"
    by (auto simp: or_else_def)
  then show "\<exists>c b. new_KeyAuthClient env = Inr c \<and> startup env = Inr b \<and> keyAuth b = c
               \<and> sent (net b) = [] \<and> replies b = [] \<and> sessionId c = None
               \<and> name (config c) = n \<and> ownerid (config c) = ow
               \<and> (env ''KEYAUTH_VERSION'' = None \<or> env ''KEYAUTH_VERSION'' = Some []
                    \<longrightarrow> version (config c) = ''2.0'')
               \<and> (\<forall>v. env ''KEYAUTH_VERSION'' = Some v \<and> v \<noteq> [] \<longrightarrow> version (config c) = v)
               \<and> (env ''KEYAUTH_URL'' = None \<or> env ''KEYAUTH_URL'' = Some []
                    \<longrightarrow> url (config c) = ''https://keyauth.win/api/1.3/'')
               \<and> (\<forall>u. env ''KEYAUTH_URL'' = Some u \<and> u \<noteq> [] \<longrightarrow> url (config c) = u)"
    by (auto simp: new_KeyAuthClient_def startup_def Let_def or_else_def)
qed

theorem constructor_fails_fast_witness:
  "(\<exists>e. new_KeyAuthClient [''KEYAUTH_NAME'' \<mapsto> ''app''] = Inl e
         \<and> startup [''KEYAUTH_NAME'' \<mapsto> ''app''] = Inl e)
   \<and> (\<exists>c. new_KeyAuthClient example_env = Inr c \<and> sessionId c = None
         \<and> config c = \<lparr>name = ''app'', ownerid = ''owner'', version = ''2.0'',
                         url = ''https://keyauth.win/api/1.3/''\<rparr>)"
proof -
  have "\<exists>e. new_KeyAuthClient [''KEYAUTH_NAME'' \<mapsto> ''app''] = Inl e
         \<and> startup [''KEYAUTH_NAME'' \<mapsto> ''app''] = Inl e"
    using constructor_fails_fast [of "[''KEYAUTH_NAME'' \<mapsto> ''app'']"] by simp
  moreover have "\<exists>c. new_KeyAuthClient example_env = Inr c \<and> sessionId c = None
         \<and> config c = \<lparr>name = ''app'', ownerid = ''owner'', version = ''2.0'',
                         url = ''https://keyauth.win/api/1.3/''\<rparr>"
  proof -
    from constructor_fails_fast [of example_env]
    obtain c where "new_KeyAuthClient example_env = Inr c" "sessionId c = None"
      "name (config c) = ''app''" "ownerid (config c) = ''owner''"
      "version (config c) = ''2.0''" "url (config c) = ''https://keyauth.win/api/1.3/''"
      by (auto simp: example_env_def)
    then show ?thesis by (intro exI[of _ c]) simp
  qed
  ultimately show ?thesis by blast
qed

section \<open>The dispatcher: lemmas\<close>

text \<open>The builder accepts the constant texts of the program and refuses an empty description.\<close>

lemma js_length_Nil: "js_length [] = 0"
  by (simp add: js_length_def)

lemma js_length_Cons:
  "js_length (c # s) =
     (if is_continuation c then 0 else 1) + (if 240 \<le> (of_char c :: nat) then 1 else 0)
     + js_length s"
  by (simp add: js_length_def)

lemma js_length_append: "js_length (a @ b) = js_length a + js_length b"
  by (simp add: js_length_def)

lemma js_length_replicate_ascii:
  "(of_char c :: nat) < 128 \<Longrightarrow> js_length (replicate n c) = n"
  by (simp add: js_length_def is_continuation_def)

lemma js_length_long_text: "js_length long_text = 4097"
  by (simp add: long_text_def js_length_replicate_ascii)

lemma createEmbed_valid:
  "valid_text 256 t \<Longrightarrow> valid_text 4096 d \<Longrightarrow> c \<le> 0xFFFFFF \<Longrightarrow>
   createEmbed t d c = Inr (embed_of t d c)"
  by (simp add: createEmbed_def embed_of_def)

lemma createEmbed_refused:
  "\<not> valid_text 4096 d \<Longrightarrow> createEmbed t d c = Inl validation_error"
  by (simp add: createEmbed_def)

lemma createEmbed_empty: "createEmbed t [] c = Inl validation_error"
  by (simp add: createEmbed_def valid_text_def js_length_def)

lemma valid_titles:
  "valid_text 256 (cross_mark @ '' Error'')"
  "valid_text 256 (cross_mark @ '' Access Denied'')"
  "valid_text 256 (cross_mark @ '' Unknown Command'')"
  by (simp_all add: valid_text_def js_length_def is_continuation_def cross_mark_def)

lemma valid_action_title: "is_action x \<Longrightarrow> valid_text 256 (action_title x result)"
  by (cases x)
     (simp_all add: action_title_def valid_text_def js_length_def is_continuation_def
        cross_mark_def check_mark_def)

lemma valid_constant_texts:
  "valid_text 4096 ''Username cannot be empty''"
  "valid_text 4096 ''License and username cannot be empty''"
  "valid_text 4096 ''Username and subscription cannot be empty''"
  "valid_text 4096 ''This command is not implemented.''"
  "valid_text 4096 ''You do not have permission to use this bot.''"
  "valid_text 4096 ''An error occurred: Received one or more errors''"
  by (simp_all add: valid_text_def js_length_def is_continuation_def)

lemma error_notice_built:
  "valid_text 4096 d \<Longrightarrow> createEmbed (cross_mark @ '' Error'') d 0xFF0000 = Inr (error_notice d)"
  by (simp add: createEmbed_valid valid_titles error_notice_def)

lemma user_embed_refused: "user_embed h u j = Inl validation_error"
  by (simp add: user_embed_def createEmbed_empty)

lemma stats_embed_refused: "stats_embed j = Inl validation_error"
  by (simp add: stats_embed_def createEmbed_empty)

lemma reply_with_simps:
  "reply_with b True (Inr e) = (None, reply_ephemeral b e)"
  "reply_with b False (Inr e) = (None, reply_public b e)"
  "reply_with b eph (Inl err) = (Some err, b)"
  by (simp_all add: reply_with_def reply_ephemeral_def reply_public_def)

text \<open>
  Each case of the \<^verbatim>\<open>switch\<close>, when its options pass its checks, calls its operation
  and shows the result; so does the \<^verbatim>\<open>switch\<close>.
\<close>

lemma trimmedD:
  "trimmed i k = Some u \<Longrightarrow> \<exists>s. getString (options i) k = Inr s \<and> trim s = u \<and> u \<noteq> []"
  by (auto simp: trimmed_def string_of_def split: sum.splits option.splits if_splits)

lemma string_ofD: "string_of i k = Some s \<Longrightarrow> getString (options i) k = Inr s"
  by (auto simp: string_of_def split: sum.splits)

lemma integer_ofD: "integer_of i k = Some n \<Longrightarrow> getInteger (options i) k = Inr n"
  by (auto simp: integer_of_def split: sum.splits)

lemmas shown_defs = action_title_def action_text_def action_color_def lookup_text_def

lemma case_user_reached:
  "trimmed i ''username'' = Some u \<Longrightarrow> case_user h b i = conclude h b (GetUserInfo u)"
  by (auto dest!: trimmedD simp: case_user_def conclude_def shown_defs Let_def
      split: prod.splits sum.splits)

lemma case_ban_reached:
  "trimmed i ''username'' = Some u \<Longrightarrow> case_ban h b i = conclude h b (BanUser u)"
  by (auto dest!: trimmedD simp: case_ban_def conclude_def shown_defs Let_def
      split: prod.splits sum.splits)

lemma case_unban_reached:
  "trimmed i ''username'' = Some u \<Longrightarrow> case_unban h b i = conclude h b (UnbanUser u)"
  by (auto dest!: trimmedD simp: case_unban_def conclude_def shown_defs Let_def
      split: prod.splits sum.splits)

lemma case_deleteuser_reached:
  "trimmed i ''username'' = Some u \<Longrightarrow> case_deleteuser h b i = conclude h b (DeleteUser u)"
  by (auto dest!: trimmedD simp: case_deleteuser_def conclude_def shown_defs Let_def
      split: prod.splits sum.splits)

lemma case_resethwid_reached:
  "trimmed i ''username'' = Some u \<Longrightarrow> case_resethwid h b i = conclude h b (ResetHWID u)"
  by (auto dest!: trimmedD simp: case_resethwid_def conclude_def shown_defs Let_def
      split: prod.splits sum.splits)

lemma case_createlicense_reached:
  "string_of i ''license'' = Some l \<Longrightarrow> integer_of i ''days'' = Some d \<Longrightarrow>
   case_createlicense h b i = conclude h b (CreateLicense l d)"
  by (auto dest!: string_ofD integer_ofD simp: case_createlicense_def conclude_def shown_defs
      split: prod.splits sum.splits)

lemma case_deletelicense_reached:
  "string_of i ''license'' = Some l \<Longrightarrow> case_deletelicense h b i = conclude h b (DeleteLicense l)"
  by (auto dest!: string_ofD simp: case_deletelicense_def conclude_def shown_defs
      split: prod.splits sum.splits)

lemma case_uselicense_reached:
  "trimmed i ''license'' = Some l \<Longrightarrow> trimmed i ''username'' = Some u \<Longrightarrow>
   case_uselicense h b i = conclude h b (UseLicense l u)"
  by (auto dest!: trimmedD simp: case_uselicense_def conclude_def shown_defs Let_def
      split: prod.splits sum.splits)

lemma case_extendsub_reached:
  "trimmed i ''username'' = Some u \<Longrightarrow> trimmed i ''subscription'' = Some s \<Longrightarrow>
   integer_of i ''days'' = Some d \<Longrightarrow>
   case_extendsub h b i = conclude h b (ExtendSubscription u s d)"
  by (auto dest!: trimmedD integer_ofD simp: case_extendsub_def conclude_def shown_defs Let_def
      split: prod.splits sum.splits)

lemma case_stats_reached: "case_stats h b i = conclude h b GetStats"
  by (auto simp: case_stats_def conclude_def shown_defs split: prod.splits sum.splits)

lemma switch_reached:
  assumes "dispatched i = Some x"
  shows "switch_command h b i = conclude h b x"
  using assms unfolding dispatched_def switch_command_def
  by (auto simp: case_user_reached case_ban_reached case_unban_reached case_deleteuser_reached
        case_resethwid_reached case_createlicense_reached case_deletelicense_reached
        case_uselicense_reached case_extendsub_reached case_stats_reached
      split: if_splits option.splits)

lemma interactionCreate_reached:
  assumes "isChatInputCommand i" and "isAdmin b (user_id i)" and "dispatched i = Some x"
  shows "interactionCreate h b i =
           (case conclude h b x of
              (None, b1) \<Rightarrow> (None, b1)
            | (Some e, b1) \<Rightarrow>
                reply_with b1 True
                  (createEmbed (cross_mark @ '' Error'') (''An error occurred: '' @ exn_message e)
                     0xFF0000))"
  using assms by (simp add: interactionCreate_def switch_reached)

lemma conclude_thrown:
  "perform h (keyAuth b) (net b) x = (Inl e, c1, w1) \<Longrightarrow> conclude h b x = (Some e, after_call b c1 w1)"
  by (simp add: conclude_def)

lemma conclude_returned:
  "perform h (keyAuth b) (net b) x = (Inr result, c1, w1) \<Longrightarrow>
   conclude h b x = shown h x (after_call b c1 w1) result"
  by (simp add: conclude_def)

lemma shown_action:
  "is_action x \<Longrightarrow>
   shown h x b result =
     reply_with b False
       (createEmbed (action_title x result) (action_text x result) (action_color result))"
  by (cases x) simp_all

lemma dispatched_cases:
  "dispatched i = Some x \<Longrightarrow> is_action x \<or> (\<exists>u. x = GetUserInfo u) \<or> x = GetStats"
  unfolding dispatched_def by (auto split: if_splits option.splits)

lemmas handler_defs =
  interactionCreate_def switch_command_def case_user_def case_ban_def case_unban_def
  case_deleteuser_def case_resethwid_def case_createlicense_def case_deletelicense_def
  case_uselicense_def case_extendsub_def case_stats_def case_default_def
  getString_def getInteger_def isAdmin_def reply_ephemeral_def reply_public_def
  interaction_reply_def after_call_def succeeded_def last_embed_def
  dispatched_def trimmed_def string_of_def integer_of_def

lemmas trim_defs =
  trim_def trimStart_def trimEnd_def strip.simps whitespace_def starts_with_def

lemma last_embed_reply:
  "last_embed (reply_public b e) = Some e" "last_embed (reply_ephemeral b e) = Some e"
  by (simp_all add: last_embed_def reply_public_def reply_ephemeral_def interaction_reply_def)

lemma replies_reply:
  "replies (reply_ephemeral b e) = replies b @ [\<lparr>embeds = [e], ephemeral = True\<rparr>]"
  "replies (reply_public b e) = replies b @ [\<lparr>embeds = [e], ephemeral = False\<rparr>]"
  "net (reply_ephemeral b e) = net b" "keyAuth (reply_ephemeral b e) = keyAuth b"
  "net (reply_public b e) = net b" "keyAuth (reply_public b e) = keyAuth b"
  by (simp_all add: reply_ephemeral_def reply_public_def interaction_reply_def)

lemma negative_error_notice: "negative (error_notice d)"
  by (simp add: negative_def error_notice_def embed_of_def cross_mark_def)

lemma positive_not_negative: "positive e \<Longrightarrow> \<not> negative e"
  by (simp add: positive_def negative_def)

text \<open>What the \<^verbatim>\<open>catch\<close> block does with a thrown error.\<close>

lemma caught:
  assumes "valid_text 4096 (''An error occurred: '' @ exn_message e)"
  shows "reply_with b True
     (createEmbed (cross_mark @ '' Error'') (''An error occurred: '' @ exn_message e) 0xFF0000)
   = (None, reply_ephemeral b (error_notice (''An error occurred: '' @ exn_message e)))"
  unfolding error_notice_built[OF assms] by (rule reply_with_simps)

lemma uncaught:
  assumes "\<not> valid_text 4096 (''An error occurred: '' @ exn_message e)"
  shows "reply_with b True
     (createEmbed (cross_mark @ '' Error'') (''An error occurred: '' @ exn_message e) 0xFF0000)
   = (Some validation_error, b)"
  unfolding createEmbed_refused[OF assms] by (rule reply_with_simps)

section \<open>The dispatcher: properties\<close>

text \<open>
  \<^bold>\<open>C1.\<close> A slash command from a caller who is not in the admin list, whatever its name and
  options, adds the one ephemeral reply \<^emph>\<open>Access Denied\<close>, whose embed the builder
  accepts, and nothing else: the handler resolves, and the requests sent, the network state
  and the client are as before.
\<close>

theorem access_denied_no_request:
  assumes "isChatInputCommand i" and "user_id i \<notin> set (adminIds b)"
  shows "interactionCreate h b i =
           (None, reply_ephemeral b
              (embed_of (cross_mark @ '' Access Denied'')
                 ''You do not have permission to use this bot.'' 0xFF0000))
         \<and> createEmbed (cross_mark @ '' Access Denied'')
               ''You do not have permission to use this bot.'' 0xFF0000
             = Inr (embed_of (cross_mark @ '' Access Denied'')
                      ''You do not have permission to use this bot.'' 0xFF0000)
         \<and> replies (snd (interactionCreate h b i)) =
             replies b @
               [\<lparr>embeds = [embed_of (cross_mark @ '' Access Denied'')
                             ''You do not have permission to use this bot.'' 0xFF0000],
                 ephemeral = True\<rparr>]
         \<and> sent (net (snd (interactionCreate h b i))) = sent (net b)
         \<and> net (snd (interactionCreate h b i)) = net b
         \<and> keyAuth (snd (interactionCreate h b i)) = keyAuth b"
proof -
  have e: "createEmbed (cross_mark @ '' Access Denied'')
               ''You do not have permission to use this bot.'' 0xFF0000
             = Inr (embed_of (cross_mark @ '' Access Denied'')
                      ''You do not have permission to use this bot.'' 0xFF0000)"
    by (rule createEmbed_valid) (simp_all add: valid_titles valid_constant_texts)
  have i: "interactionCreate h b i =
           (None, reply_ephemeral b
              (embed_of (cross_mark @ '' Access Denied'')
                 ''You do not have permission to use this bot.'' 0xFF0000))"
    using assms unfolding interactionCreate_def e
    by (simp add: isAdmin_def reply_with_simps)
  show ?thesis
    unfolding i using e by (simp add: replies_reply)
qed

text \<open>Caller \<^verbatim>\<open>7\<close> is not among the admins \<^verbatim>\<open>42\<close> and \<^verbatim>\<open>43\<close> of the example.\<close>

theorem access_denied_no_request_witness:
  "let h = example_host (server (json_reply
             \<lparr>success = Some True, sessionid = None, message = None, info = None\<rparr>));
       i = invocation ''7'' ''ban'' [''username'' \<mapsto> StringOption ''alice''];
       r = interactionCreate h example_bot i
   in isChatInputCommand i \<and> user_id i \<notin> set (adminIds example_bot)
      \<and> fst r = None \<and> sent (net (snd r)) = [] \<and> sessionId (keyAuth (snd r)) = None
      \<and> last_embed (snd r) = Some (embed_of (cross_mark @ '' Access Denied'')
                ''You do not have permission to use this bot.'' 0xFF0000)
      \<and> length (replies (snd r)) = 1"
proof -
  let ?h = "example_host (server (json_reply
             \<lparr>success = Some True, sessionid = None, message = None, info = None\<rparr>))"
  let ?i = "invocation ''7'' ''ban'' [''username'' \<mapsto> StringOption ''alice'']"
  have h1: "isChatInputCommand ?i" by (simp add: invocation_def)
  have h2: "user_id ?i \<notin> set (adminIds example_bot)"
    by (simp add: invocation_def example_bot_def)
  from access_denied_no_request [OF h1 h2, of ?h]
  have e: "interactionCreate ?h example_bot ?i =
      (None, reply_ephemeral example_bot
        (embed_of (cross_mark @ '' Access Denied'')
           ''You do not have permission to use this bot.'' 0xFF0000))"
    by (rule conjunct1)
  show ?thesis
    unfolding Let_def e using h1 h2
    by (simp add: last_embed_reply replies_reply example_bot_def example_world_def
        example_client_def)
qed

text \<open>
  A request that fails at the network, or is answered with a status outside 200 to 299,
  makes the operation throw, for each of the thirteen operations.
\<close>

lemma perform_failure:
  assumes "getSessionId h c w = (sid, c1, w1)"
    and "upstream h (sent w1) (api_request c1 sid (op_type x) (op_params x)) = res"
    and "(res = Rejected m)
         \<or> (\<exists>r. res = Resolved r \<and> \<not> ok r
                \<and> m = ''HTTP '' @ nat_toString (status r) @ '': '' @ statusText r)"
  shows "perform h c w x =
           (Inl (Error (''KeyAuth API request failed: '' @ m)), c1,
            w1\<lparr>sent := sent w1 @ [api_request c1 sid (op_type x) (op_params x)]\<rparr>)"
proof -
  have t: "request_try res = Inl (Error m)"
    using assms(3) by (auto simp: request_try_def)
  show ?thesis
    unfolding perform_makeRequest makeRequest_unfold[OF assms(1)] assms(2) t by simp
qed

lemma valid_error_text:
  "valid_text 4096 (''An error occurred: '' @ m) \<longleftrightarrow> js_length (''An error occurred: '' @ m) \<le> 4096"
  by (simp add: valid_text_def js_length_def is_continuation_def)

text \<open>
  \<^bold>\<open>C5, amended.\<close> When the request of the operation that an admin's invocation reached
  fails at the network with message \<open>m\<close>, or is answered with a status that is not ok,
  \<open>m\<close> then being \<^verbatim>\<open>HTTP\<close>, the status and the status text, the operation throws the
  error \<^verbatim>\<open>KeyAuth API request failed:\<close> \<open>m\<close>. The handler catches it. When the
  description \<^verbatim>\<open>An error occurred:\<close> with that message has at most 4096 characters,
  the handler resolves with exactly one more reply, the ephemeral error notification carrying
  it. When it has more, the builder refuses it inside the \<^verbatim>\<open>catch\<close> block: no reply is
  made and the handler's promise rejects.
\<close>

theorem transport_failure_one_reply:
  assumes "isChatInputCommand i" and "isAdmin b (user_id i)" and "dispatched i = Some x"
    and "getSessionId h (keyAuth b) (net b) = (sid, c1, w1)"
    and "upstream h (sent w1) (api_request c1 sid (op_type x) (op_params x)) = res"
    and "(res = Rejected m)
         \<or> (\<exists>r. res = Resolved r \<and> \<not> ok r
                \<and> m = ''HTTP '' @ nat_toString (status r) @ '': '' @ statusText r)"
  shows "let w2 = w1\<lparr>sent := sent w1 @ [api_request c1 sid (op_type x) (op_params x)]\<rparr>;
             d = ''An error occurred: '' @ ''KeyAuth API request failed: '' @ m
         in perform h (keyAuth b) (net b) x =
              (Inl (Error (''KeyAuth API request failed: '' @ m)), c1, w2)
            \<and> (js_length d \<le> 4096 \<longrightarrow>
                 interactionCreate h b i
                   = (None, reply_ephemeral (after_call b c1 w2) (error_notice d))
                 \<and> replies (snd (interactionCreate h b i)) =
                     replies b @ [\<lparr>embeds = [error_notice d], ephemeral = True\<rparr>]
                 \<and> negative (error_notice d))
            \<and> (4096 < js_length d \<longrightarrow>
                 interactionCreate h b i = (Some validation_error, after_call b c1 w2)
                 \<and> replies (snd (interactionCreate h b i)) = replies b)"
proof -
  let ?w2 = "w1\<lparr>sent := sent w1 @ [api_request c1 sid (op_type x) (op_params x)]\<rparr>"
  let ?e = "Error (''KeyAuth API request failed: '' @ m)"
  let ?d = "''An error occurred: '' @ ''KeyAuth API request failed: '' @ m"
  have d: "?d = ''An error occurred: '' @ exn_message ?e" by simp
  have p: "perform h (keyAuth b) (net b) x = (Inl ?e, c1, ?w2)"
    by (rule perform_failure[OF assms(4-6)])
  have i: "interactionCreate h b i =
      reply_with (after_call b c1 ?w2) True
        (createEmbed (cross_mark @ '' Error'') (''An error occurred: '' @ exn_message ?e) 0xFF0000)"
    unfolding interactionCreate_reached[OF assms(1-3)] conclude_thrown[OF p] by simp
  have short: "interactionCreate h b i
                   = (None, reply_ephemeral (after_call b c1 ?w2) (error_notice ?d))
                 \<and> replies (snd (interactionCreate h b i)) =
                     replies b @ [\<lparr>embeds = [error_notice ?d], ephemeral = True\<rparr>]
                 \<and> negative (error_notice ?d)"
    if "js_length ?d \<le> 4096"
  proof -
    from that have v: "valid_text 4096 (''An error occurred: '' @ exn_message ?e)"
      unfolding d[symmetric] valid_error_text[of "''KeyAuth API request failed: '' @ m"] .
    have "interactionCreate h b i
                   = (None, reply_ephemeral (after_call b c1 ?w2) (error_notice ?d))"
      unfolding i caught[OF v] d ..
    then show ?thesis
      by (simp add: replies_reply after_call_def negative_error_notice)
  qed
  have long: "interactionCreate h b i = (Some validation_error, after_call b c1 ?w2)
                 \<and> replies (snd (interactionCreate h b i)) = replies b"
    if "4096 < js_length ?d"
  proof -
    from that have v: "\<not> valid_text 4096 (''An error occurred: '' @ exn_message ?e)"
      unfolding d[symmetric] valid_error_text[of "''KeyAuth API request failed: '' @ m"] by simp
    have "interactionCreate h b i = (Some validation_error, after_call b c1 ?w2)"
      unfolding i uncaught[OF v] ..
    then show ?thesis by (simp add: after_call_def)
  qed
  from p short long show ?thesis unfolding Let_def by blast
qed

text \<open>
  The examples: the invocations of admin \<^verbatim>\<open>42\<close>, and a server that issues the session
  \<^verbatim>\<open>S1\<close> and answers every operation alike, with a failure or with a body.
\<close>

lemmas length_eval = js_length_Nil js_length_Cons is_continuation_def js_length_long_text

lemma ban_invocation_reached:
  "isChatInputCommand ban_invocation" "isAdmin example_bot (user_id ban_invocation)"
  "dispatched ban_invocation = Some (BanUser ''alice'')"
  by (simp_all add: handler_defs trim_defs ban_invocation_def invocation_def example_bot_def)

lemma stats_invocation_reached:
  "isChatInputCommand stats_invocation" "isAdmin example_bot (user_id stats_invocation)"
  "dispatched stats_invocation = Some GetStats"
  by (simp_all add: handler_defs stats_invocation_def invocation_def example_bot_def)

lemma user_invocation_reached:
  "isChatInputCommand user_invocation" "isAdmin example_bot (user_id user_invocation)"
  "dispatched user_invocation = Some (GetUserInfo ''alice'')"
  by (simp_all add: handler_defs trim_defs user_invocation_def invocation_def example_bot_def)

lemma example_session:
  "getSessionId (example_host (server res)) (keyAuth example_bot) (net example_bot) =
     (''S1'', session_client, example_world\<lparr>sent := [init_request (config example_client)]\<rparr>)"
  by (simp add: client_defs example_defs session_client_def)

lemma example_answer:
  "upstream (example_host (server res))
     (sent (example_world\<lparr>sent := [init_request (config example_client)]\<rparr>))
     (api_request session_client ''S1'' (op_type x) (op_params x))
   = res"
  using not_init_api_request[of session_client "''S1''" x]
  by (simp add: example_host_def server_def)

lemma example_requested:
  "example_world\<lparr>sent := [init_request (config example_client)]\<rparr>
     \<lparr>sent := sent (example_world\<lparr>sent := [init_request (config example_client)]\<rparr>)
        @ [api_request session_client ''S1'' (op_type x) (op_params x)]\<rparr>
   = requested x"
  by (simp add: requested_def)

lemma example_perform:
  "perform (example_host (server (json_reply data))) (keyAuth example_bot) (net example_bot) x =
     (Inr data, session_client, requested x)"
  unfolding perform_makeRequest makeRequest_unfold[OF example_session] example_answer
    example_requested
  by (simp add: json_reply_def request_try_def ok_def)

lemma example_failure:
  assumes "(res = Rejected m)
         \<or> (\<exists>r. res = Resolved r \<and> \<not> ok r
                \<and> m = ''HTTP '' @ nat_toString (status r) @ '': '' @ statusText r)"
  shows "perform (example_host (server res)) (keyAuth example_bot) (net example_bot) x =
           (Inl (Error (''KeyAuth API request failed: '' @ m)), session_client, requested x)"
  using perform_failure[OF example_session example_answer assms, of x]
  unfolding example_requested .

lemma replies_answered: "replies (answered x) = []"
  by (simp add: answered_def after_call_def example_bot_def)

lemma status_500:
  "Resolved (Response 500 t (Inl ''no body'')) = Rejected (''HTTP 500: '' @ t)
   \<or> (\<exists>r. Resolved (Response 500 t (Inl ''no body'')) = Resolved r \<and> \<not> ok r
          \<and> ''HTTP 500: '' @ t = ''HTTP '' @ nat_toString (status r) @ '': '' @ statusText r)"
  by (simp add: ok_def nat_toString.simps digit_char_def)

text \<open>
  \<^bold>\<open>C5 as stated fails.\<close> A ban answered with status 500 and a status text of 4097
  letters: the operation throws, the description of the error notification would have more
  than 4096 characters, the builder refuses it inside the \<^verbatim>\<open>catch\<close> block, the
  handler's promise rejects and no reply is made.
\<close>

theorem long_status_no_reply:
  "isChatInputCommand ban_invocation \<and> isAdmin example_bot (user_id ban_invocation)
   \<and> dispatched ban_invocation = Some (BanUser ''alice'')
   \<and> fst (perform long_status_host (keyAuth example_bot) (net example_bot) (BanUser ''alice''))
       = Inl (Error (''KeyAuth API request failed: HTTP 500: '' @ long_text))
   \<and> fst (interactionCreate long_status_host example_bot ban_invocation) = Some validation_error
   \<and> replies (snd (interactionCreate long_status_host example_bot ban_invocation)) = []"
proof -
  let ?x = "BanUser ''alice''"
  let ?e = "Error (''KeyAuth API request failed: '' @ ''HTTP 500: '' @ long_text)"
  have p: "perform long_status_host (keyAuth example_bot) (net example_bot) ?x
             = (Inl ?e, session_client, requested ?x)"
    unfolding long_status_host_def by (rule example_failure[OF status_500])
  have v: "\<not> valid_text 4096 (''An error occurred: '' @ exn_message ?e)"
    by (simp add: valid_text_def length_eval)
  have i: "interactionCreate long_status_host example_bot ban_invocation
             = (Some validation_error, answered ?x)"
    unfolding interactionCreate_reached[OF ban_invocation_reached] conclude_thrown[OF p]
      answered_def
    using uncaught[OF v] by simp
  have r: "replies (snd (interactionCreate long_status_host example_bot ban_invocation)) = []"
    unfolding i by (simp add: replies_answered)
  from ban_invocation_reached p i r show ?thesis by simp
qed

text \<open>
  A ban answered with status 500 and \<^verbatim>\<open>Internal Server Error\<close>: one error reply. The
  same with the long status text: none.
\<close>

theorem transport_failure_one_reply_witness:
  "let h = example_host (server (Resolved (Response 500 ''Internal Server Error'' (Inl ''no body''))));
       r = interactionCreate h example_bot ban_invocation;
       r2 = interactionCreate long_status_host example_bot ban_invocation
   in isChatInputCommand ban_invocation \<and> isAdmin example_bot (user_id ban_invocation)
      \<and> dispatched ban_invocation = Some (BanUser ''alice'')
      \<and> fst r = None
      \<and> replies (snd r) =
           [\<lparr>embeds = [error_notice
               ''An error occurred: KeyAuth API request failed: HTTP 500: Internal Server Error''],
             ephemeral = True\<rparr>]
      \<and> fst r2 = Some validation_error \<and> replies (snd r2) = []"
proof -
  let ?h = "example_host (server (Resolved (Response 500 ''Internal Server Error'' (Inl ''no body''))))"
  have l: "js_length (''An error occurred: '' @ ''KeyAuth API request failed: ''
             @ ''HTTP 500: '' @ ''Internal Server Error'') \<le> 4096"
    by (simp add: length_eval)
  note t = transport_failure_one_reply [OF ban_invocation_reached example_session example_answer
      status_500, unfolded Let_def example_requested]
  note c = t [THEN conjunct2, THEN conjunct1, rule_format, OF l]
  from c [THEN conjunct2, THEN conjunct1]
  have a: "replies (snd (interactionCreate ?h example_bot ban_invocation)) =
      replies example_bot @ [\<lparr>embeds = [error_notice (''An error occurred: ''
         @ ''KeyAuth API request failed: '' @ ''HTTP 500: '' @ ''Internal Server Error'')],
         ephemeral = True\<rparr>]"
    by simp
  from c [THEN conjunct1]
  have a0: "fst (interactionCreate ?h example_bot ban_invocation) = None"
    by simp
  have l2: "4096 < js_length (''An error occurred: '' @ ''KeyAuth API request failed: ''
             @ ''HTTP 500: '' @ long_text)"
    by (simp add: length_eval)
  note t2 = transport_failure_one_reply [OF ban_invocation_reached example_session example_answer
      status_500, unfolded Let_def example_requested]
  note c2 = t2 [THEN conjunct2, THEN conjunct2, rule_format, OF l2]
  from c2 [THEN conjunct1]
  have b: "fst (interactionCreate long_status_host example_bot ban_invocation)
        = Some validation_error"
    unfolding long_status_host_def by simp
  from c2 [THEN conjunct2]
  have b2: "replies (snd (interactionCreate long_status_host example_bot ban_invocation))
        = replies example_bot"
    unfolding long_status_host_def by simp
  show ?thesis
    unfolding Let_def using ban_invocation_reached a a0 b b2
    by (simp add: example_bot_def)
qed

subsection \<open>Showing the result of an operation\<close>

text \<open>The text of a success names every argument of the operation.\<close>

lemma sublist_second: "sublist a (p @ q @ r @ a @ s)"
  by (metis append.assoc sublist_appendI)

lemma sublist_third: "sublist a (p @ q @ r @ t @ u @ a @ s)"
  by (metis append.assoc sublist_appendI)

lemma success_text_mentions:
  assumes "is_action x" and "a \<in> set (op_args x)"
  shows "sublist a (success_text x)"
proof (cases x)
  case (BanUser u)
  have "sublist u (success_text x)"
    unfolding BanUser success_text.simps by (rule sublist_appendI)
  with assms(2) BanUser show ?thesis by simp
next
  case (UnbanUser u)
  have "sublist u (success_text x)"
    unfolding UnbanUser success_text.simps by (rule sublist_appendI)
  with assms(2) UnbanUser show ?thesis by simp
next
  case (DeleteUser u)
  have "sublist u (success_text x)"
    unfolding DeleteUser success_text.simps by (rule sublist_appendI)
  with assms(2) DeleteUser show ?thesis by simp
next
  case (ResetHWID u)
  have "sublist u (success_text x)"
    unfolding ResetHWID success_text.simps by (rule sublist_appendI)
  with assms(2) ResetHWID show ?thesis by simp
next
  case (CreateLicense l d)
  have "sublist l (success_text x)"
    unfolding CreateLicense success_text.simps by (rule sublist_appendI)
  moreover have "sublist (number_toString d) (success_text x)"
    unfolding CreateLicense success_text.simps by (rule sublist_second)
  ultimately show ?thesis using assms(2) CreateLicense by auto
next
  case (DeleteLicense l)
  have "sublist l (success_text x)"
    unfolding DeleteLicense success_text.simps by (rule sublist_appendI)
  with assms(2) DeleteLicense show ?thesis by simp
next
  case (UseLicense l u)
  have "sublist l (success_text x)"
    unfolding UseLicense success_text.simps by (rule sublist_appendI)
  moreover have "sublist u (success_text x)"
    unfolding UseLicense success_text.simps by (rule sublist_second)
  ultimately show ?thesis using assms(2) UseLicense by auto
next
  case (ExtendSubscription u s d)
  have "sublist s (success_text x)"
    unfolding ExtendSubscription success_text.simps by (rule sublist_appendI)
  moreover have "sublist u (success_text x)"
    unfolding ExtendSubscription success_text.simps by (rule sublist_second)
  moreover have "sublist (number_toString d) (success_text x)"
    unfolding ExtendSubscription success_text.simps by (rule sublist_third)
  ultimately show ?thesis using assms(2) ExtendSubscription by auto
qed (use assms(1) in simp_all)

text \<open>The description is the message when that is a non-empty text, else the text of the command.\<close>

lemma texts_of_result:
  "(\<forall>m. message result = Some m \<and> m \<noteq> [] \<longrightarrow>
       action_text x result = m \<and> lookup_text x result = m)
   \<and> (message result = None \<or> message result = Some [] \<longrightarrow>
        action_text x result
          = (if success result = Some True then success_text x else failure_text x)
        \<and> lookup_text x result = failure_text x)"
  by (auto simp: action_text_def lookup_text_def or_else_def succeeded_def)

lemma action_embed_props:
  "(success result = Some True \<longrightarrow>
      positive (embed_of (action_title x result) d (action_color result))
      \<and> action_title x result = check_mark @ success_title x)
   \<and> (success result \<noteq> Some True \<longrightarrow>
        negative (embed_of (action_title x result) d (action_color result)))"
  by (auto simp: embed_of_def action_title_def action_color_def positive_def negative_def
      succeeded_def check_mark_def cross_mark_def)

lemma shown_action_valid:
  assumes "is_action x" and "valid_text 4096 (action_text x result)"
  shows "shown h x b result =
           (None, reply_public b
              (embed_of (action_title x result) (action_text x result) (action_color result)))"
proof -
  have "createEmbed (action_title x result) (action_text x result) (action_color result)
          = Inr (embed_of (action_title x result) (action_text x result) (action_color result))"
    by (rule createEmbed_valid[OF valid_action_title[OF assms(1)] assms(2)])
       (simp add: action_color_def)
  then show ?thesis
    unfolding shown_action[OF assms(1)] by (simp add: reply_with_simps)
qed

lemma shown_lookup:
  assumes "\<not> is_action x" and "dispatched i = Some x"
    and "\<not> (succeeded result \<and> truthy (info result))"
  shows "shown h x b result =
           reply_with b False
             (createEmbed (cross_mark @ '' Error'') (lookup_text x result) 0xFF0000)"
proof -
  from dispatched_cases[OF assms(2)] assms(1)
  consider u where "x = GetUserInfo u" | "x = GetStats" by auto
  then show ?thesis using assms(3) by cases auto
qed

text \<open>
  A lookup that succeeded and has its \<^verbatim>\<open>info\<close> throws when it builds its embed, whose
  description is empty.
\<close>

lemma shown_lookup_refused:
  assumes "\<not> is_action x" and "dispatched i = Some x"
    and "succeeded result \<and> truthy (info result)"
  shows "shown h x b result = (Some validation_error, b)"
proof -
  from dispatched_cases[OF assms(2)] assms(1)
  consider u where "x = GetUserInfo u" | "x = GetStats" by auto
  then show ?thesis using assms(3)
    by cases (auto simp: user_embed_refused stats_embed_refused reply_with_simps)
qed

text \<open>
  \<^bold>\<open>C6, amended.\<close> When an admin's invocation reached its operation and the description
  of the notification is within the 4096 characters an embed takes: for the eight commands
  other than \<^verbatim>\<open>user\<close> and \<^verbatim>\<open>stats\<close>, a result with \<^verbatim>\<open>success = true\<close> gives a
  positive notification and any other result a negative one, described by the result's
  message when that is a non-empty text, else by the success text of the command, which
  names every argument, or by its failure text; for \<^verbatim>\<open>user\<close> and \<^verbatim>\<open>stats\<close>, a result
  that lacks \<^verbatim>\<open>success = true\<close> or lacks \<^verbatim>\<open>info\<close> gives a negative notification,
  described by the message or else by the failure text of the command; and when the
  operation throws, the notification is the negative one saying \<^verbatim>\<open>An error occurred:\<close>
  and the error's message.
\<close>

theorem operation_result_shown:
  assumes "isChatInputCommand i" and "isAdmin b (user_id i)" and "dispatched i = Some x"
  shows "(is_action x \<longrightarrow>
            (\<forall>result c1 w1.
               perform h (keyAuth b) (net b) x = (Inr result, c1, w1)
               \<and> valid_text 4096 (action_text x result) \<longrightarrow>
               (\<exists>e. interactionCreate h b i = (None, reply_public (after_call b c1 w1) e)
                  \<and> description e = action_text x result
                  \<and> (success result = Some True \<longrightarrow>
                       positive e \<and> title e = check_mark @ success_title x)
                  \<and> (success result \<noteq> Some True \<longrightarrow> negative e))))
         \<and> (\<not> is_action x \<longrightarrow>
              (\<forall>result c1 w1.
                 perform h (keyAuth b) (net b) x = (Inr result, c1, w1)
                 \<and> \<not> (success result = Some True \<and> truthy (info result))
                 \<and> valid_text 4096 (lookup_text x result) \<longrightarrow>
                 (\<exists>e. interactionCreate h b i = (None, reply_public (after_call b c1 w1) e)
                    \<and> description e = lookup_text x result \<and> negative e)))
         \<and> (\<forall>err c1 w1.
               perform h (keyAuth b) (net b) x = (Inl err, c1, w1)
               \<and> js_length (''An error occurred: '' @ exn_message err) \<le> 4096 \<longrightarrow>
               interactionCreate h b i =
                 (None, reply_ephemeral (after_call b c1 w1)
                    (error_notice (''An error occurred: '' @ exn_message err)))
               \<and> negative (error_notice (''An error occurred: '' @ exn_message err)))
         \<and> (\<forall>result m. message result = Some m \<and> m \<noteq> [] \<longrightarrow>
               action_text x result = m \<and> lookup_text x result = m)
         \<and> (\<forall>result. message result = None \<or> message result = Some [] \<longrightarrow>
               action_text x result
                 = (if success result = Some True then success_text x else failure_text x)
               \<and> lookup_text x result = failure_text x)
         \<and> (is_action x \<longrightarrow> (\<forall>a\<in>set (op_args x). sublist a (success_text x)))"
proof -
  have act: "\<exists>e. interactionCreate h b i = (None, reply_public (after_call b c1 w1) e)
                  \<and> description e = action_text x result
                  \<and> (success result = Some True \<longrightarrow>
                       positive e \<and> title e = check_mark @ success_title x)
                  \<and> (success result \<noteq> Some True \<longrightarrow> negative e)"
    if a: "is_action x" and p: "perform h (keyAuth b) (net b) x = (Inr result, c1, w1)"
      and v: "valid_text 4096 (action_text x result)" for result c1 w1
  proof -
    let ?e = "embed_of (action_title x result) (action_text x result) (action_color result)"
    have "interactionCreate h b i = (None, reply_public (after_call b c1 w1) ?e)"
      unfolding interactionCreate_reached[OF assms] conclude_returned[OF p]
        shown_action_valid[OF a v] by simp
    moreover have "description ?e = action_text x result" "title ?e = action_title x result"
      by (simp_all add: embed_of_def)
    ultimately show ?thesis
      using action_embed_props[of result x "action_text x result"] by auto
  qed
  have look: "\<exists>e. interactionCreate h b i = (None, reply_public (after_call b c1 w1) e)
                    \<and> description e = lookup_text x result \<and> negative e"
    if a: "\<not> is_action x" and p: "perform h (keyAuth b) (net b) x = (Inr result, c1, w1)"
      and n: "\<not> (success result = Some True \<and> truthy (info result))"
      and v: "valid_text 4096 (lookup_text x result)" for result c1 w1
  proof -
    from n have n': "\<not> (succeeded result \<and> truthy (info result))"
      by (simp add: succeeded_def)
    have "interactionCreate h b i
            = (None, reply_public (after_call b c1 w1) (error_notice (lookup_text x result)))"
      unfolding interactionCreate_reached[OF assms] conclude_returned[OF p]
        shown_lookup[OF a assms(3) n'] error_notice_built[OF v]
      by (simp add: reply_with_simps)
    moreover have "description (error_notice (lookup_text x result)) = lookup_text x result"
      by (simp add: error_notice_def embed_of_def)
    ultimately show ?thesis using negative_error_notice by blast
  qed
  have thrown: "interactionCreate h b i =
                 (None, reply_ephemeral (after_call b c1 w1)
                    (error_notice (''An error occurred: '' @ exn_message err)))
               \<and> negative (error_notice (''An error occurred: '' @ exn_message err))"
    if p: "perform h (keyAuth b) (net b) x = (Inl err, c1, w1)"
      and l: "js_length (''An error occurred: '' @ exn_message err) \<le> 4096" for err c1 w1
  proof -
    from l have v: "valid_text 4096 (''An error occurred: '' @ exn_message err)"
      by (simp only: valid_error_text)
    have "interactionCreate h b i =
                 (None, reply_ephemeral (after_call b c1 w1)
                    (error_notice (''An error occurred: '' @ exn_message err)))"
      unfolding interactionCreate_reached[OF assms] conclude_thrown[OF p] using caught[OF v]
      by simp
    then show ?thesis using negative_error_notice by blast
  qed
  from act look thrown texts_of_result success_text_mentions show ?thesis
    by (intro conjI impI allI ballI; (elim conjE)?; blast)
qed


lemma thirty: "number_toString 30 = ''30''"
  by (simp add: number_toString_def nat_toString.simps digit_char_def)

lemma bare_stats_shown:
  "interactionCreate bare_host example_bot stats_invocation
     = (None, reply_public (answered GetStats) (error_notice ''Failed to fetch statistics''))"
proof -
  have p: "perform bare_host (keyAuth example_bot) (net example_bot) GetStats
      = (Inr bare_success, session_client, requested GetStats)"
    unfolding bare_host_def by (rule example_perform)
  have v: "valid_text 4096 ''Failed to fetch statistics''"
    by (simp add: valid_text_def length_eval)
  have s: "shown bare_host GetStats b bare_success
             = (None, reply_public b (error_notice ''Failed to fetch statistics''))" for b
    by (simp add: succeeded_def bare_success_def lookup_text_def or_else_def
        error_notice_built[OF v] reply_with_simps)
  show ?thesis
    unfolding interactionCreate_reached[OF stats_invocation_reached] conclude_returned[OF p] s
      answered_def
    by simp
qed

text \<open>
  \<^bold>\<open>C6 as stated fails.\<close> The statistics command, answered with
  \<^verbatim>\<open>{"success": true}\<close> and no \<^verbatim>\<open>info\<close>: the operation returns a successful
  result, and the reply is the negative notification \<^verbatim>\<open>Failed to fetch statistics\<close>.
\<close>

theorem success_without_info_negative:
  "isChatInputCommand stats_invocation \<and> isAdmin example_bot (user_id stats_invocation)
   \<and> dispatched stats_invocation = Some GetStats
   \<and> fst (perform bare_host (keyAuth example_bot) (net example_bot) GetStats) = Inr bare_success
   \<and> success bare_success = Some True
   \<and> fst (interactionCreate bare_host example_bot stats_invocation) = None
   \<and> last_embed (snd (interactionCreate bare_host example_bot stats_invocation))
       = Some (error_notice ''Failed to fetch statistics'')
   \<and> negative (error_notice ''Failed to fetch statistics'')
   \<and> \<not> positive (error_notice ''Failed to fetch statistics'')"
proof -
  have f: "fst (interactionCreate bare_host example_bot stats_invocation) = None"
    unfolding bare_stats_shown by simp
  have l: "last_embed (snd (interactionCreate bare_host example_bot stats_invocation))
       = Some (error_notice ''Failed to fetch statistics'')"
    unfolding bare_stats_shown by (simp add: last_embed_reply)
  have q: "fst (perform bare_host (keyAuth example_bot) (net example_bot) GetStats) = Inr bare_success"
    unfolding bare_host_def example_perform by simp
  have t: "success bare_success = Some True" by (simp add: bare_success_def)
  from stats_invocation_reached q t f l
    negative_error_notice[of "''Failed to fetch statistics''"]
    positive_not_negative[of "error_notice ''Failed to fetch statistics''"]
  show ?thesis by blast
qed

text \<open>
  A licence created, a ban refused with a message, statistics answered without data, and a ban
  whose request is rejected by the transport.
\<close>

theorem operation_result_shown_witness:
  "let i = invocation ''42'' ''createlicense''
             [''license'' \<mapsto> StringOption ''ABC-123'', ''days'' \<mapsto> IntegerOption 30];
       r1 = interactionCreate bare_host example_bot i;
       r2 = interactionCreate refusing_host example_bot ban_invocation;
       r3 = interactionCreate bare_host example_bot stats_invocation;
       r4 = interactionCreate (example_host (server (Rejected ''down''))) example_bot ban_invocation
   in isChatInputCommand i \<and> isAdmin example_bot (user_id i)
      \<and> dispatched i = Some (CreateLicense ''ABC-123'' 30) \<and> is_action (CreateLicense ''ABC-123'' 30)
      \<and> (\<exists>e. last_embed (snd r1) = Some e \<and> positive e
            \<and> description e = ''License ABC-123 created for 30 days.''
            \<and> sublist ''ABC-123'' (description e) \<and> sublist ''30'' (description e))
      \<and> dispatched ban_invocation = Some (BanUser ''alice'')
      \<and> (\<exists>e. last_embed (snd r2) = Some e \<and> negative e \<and> description e = ''No such user'')
      \<and> dispatched stats_invocation = Some GetStats \<and> \<not> is_action GetStats
      \<and> (\<exists>e. last_embed (snd r3) = Some e \<and> negative e
            \<and> description e = ''Failed to fetch statistics'')
      \<and> last_embed (snd r4)
          = Some (error_notice ''An error occurred: KeyAuth API request failed: down'')"
proof -
  let ?i = "invocation ''42'' ''createlicense''
             [''license'' \<mapsto> StringOption ''ABC-123'', ''days'' \<mapsto> IntegerOption 30]"
  let ?x = "CreateLicense ''ABC-123'' 30"
  have h1: "isChatInputCommand ?i" by (simp add: invocation_def)
  have h2: "isAdmin example_bot (user_id ?i)"
    by (simp add: invocation_def example_bot_def isAdmin_def)
  have h3: "dispatched ?i = Some ?x"
    by (simp add: dispatched_def string_of_def integer_of_def getString_def getInteger_def
        invocation_def)
  have h4: "is_action ?x" by simp
  note t1 = operation_result_shown [OF h1 h2 h3, of bare_host]
  have a1: "action_text ?x bare_success = ''License ABC-123 created for 30 days.''"
    by (simp add: action_text_def or_else_def succeeded_def bare_success_def thirty)
  have v1: "valid_text 4096 (action_text ?x bare_success)"
    unfolding a1 by (simp add: valid_text_def length_eval)
  have p1: "perform bare_host (keyAuth example_bot) (net example_bot) ?x
              = (Inr bare_success, session_client, requested ?x)"
    unfolding bare_host_def by (rule example_perform)
  from t1 [THEN conjunct1, rule_format, OF h4 conjI [OF p1 v1]]
  obtain e1 where e1: "interactionCreate bare_host example_bot ?i
        = (None, reply_public (after_call example_bot session_client (requested ?x)) e1)"
      "description e1 = action_text ?x bare_success"
      "success bare_success = Some True \<longrightarrow> positive e1 \<and> title e1 = check_mark @ success_title ?x"
    by blast
  have m1: "\<forall>a\<in>set (op_args ?x). sublist a (success_text ?x)"
    using t1 h4 by blast
  then have "sublist ''ABC-123'' (success_text ?x)"
      "sublist (number_toString 30) (success_text ?x)"
    by simp_all
  then have s1: "sublist ''ABC-123'' (description e1)" "sublist ''30'' (description e1)"
    unfolding e1(2) a1 by (simp_all add: thirty)
  have po: "positive e1" using e1(3) by (simp add: bare_success_def)
  have first: "\<exists>e. last_embed (snd (interactionCreate bare_host example_bot ?i)) = Some e
            \<and> positive e \<and> description e = ''License ABC-123 created for 30 days.''
            \<and> sublist ''ABC-123'' (description e) \<and> sublist ''30'' (description e)"
    unfolding e1(1) using e1(2) po s1 a1
    by (auto simp: last_embed_reply)
  let ?y = "BanUser ''alice''"
  note t2 = operation_result_shown [OF ban_invocation_reached, of refusing_host]
  have a2: "action_text ?y refusal = ''No such user''"
    by (simp add: action_text_def or_else_def refusal_def)
  have v2: "valid_text 4096 (action_text ?y refusal)"
    unfolding a2 by (simp add: valid_text_def length_eval)
  have p2: "perform refusing_host (keyAuth example_bot) (net example_bot) ?y
              = (Inr refusal, session_client, requested ?y)"
    unfolding refusing_host_def by (rule example_perform)
  have y4: "is_action ?y" by simp
  from t2 [THEN conjunct1, rule_format, OF y4 conjI [OF p2 v2]]
  obtain e2 where e2: "interactionCreate refusing_host example_bot ban_invocation
        = (None, reply_public (after_call example_bot session_client (requested ?y)) e2)"
      "description e2 = action_text ?y refusal"
      "success refusal \<noteq> Some True \<longrightarrow> negative e2"
    by blast
  have ne: "negative e2" using e2(3) by (simp add: refusal_def)
  have second: "\<exists>e. last_embed (snd (interactionCreate refusing_host example_bot ban_invocation))
        = Some e \<and> negative e \<and> description e = ''No such user''"
    unfolding e2(1) using e2(2) ne a2
    by (auto simp: last_embed_reply)
  note t3 = operation_result_shown [OF stats_invocation_reached, of bare_host]
  have a3: "lookup_text GetStats bare_success = ''Failed to fetch statistics''"
    by (simp add: lookup_text_def or_else_def bare_success_def)
  have v3: "valid_text 4096 (lookup_text GetStats bare_success)"
    unfolding a3 by (simp add: valid_text_def length_eval)
  have n3: "\<not> (success bare_success = Some True \<and> truthy (info bare_success))"
    by (simp add: bare_success_def)
  have p3: "perform bare_host (keyAuth example_bot) (net example_bot) GetStats
              = (Inr bare_success, session_client, requested GetStats)"
    unfolding bare_host_def by (rule example_perform)
  have g4: "\<not> is_action GetStats" by simp
  from t3 [THEN conjunct2, THEN conjunct1, rule_format, OF g4 conjI [OF p3 conjI [OF n3 v3]]]
  obtain e3 where e3: "interactionCreate bare_host example_bot stats_invocation
        = (None, reply_public (after_call example_bot session_client (requested GetStats)) e3)"
      "description e3 = lookup_text GetStats bare_success" "negative e3"
    by blast
  have third: "\<exists>e. last_embed (snd (interactionCreate bare_host example_bot stats_invocation))
        = Some e \<and> negative e \<and> description e = ''Failed to fetch statistics''"
    unfolding e3(1) using e3(2,3) a3 by (auto simp: last_embed_reply)
  let ?down = "example_host (server (Rejected ''down''))"
  let ?err = "Error (''KeyAuth API request failed: '' @ ''down'')"
  note t4 = operation_result_shown [OF ban_invocation_reached, of ?down]
  have p4: "perform ?down (keyAuth example_bot) (net example_bot) ?y =
      (Inl ?err, session_client, requested ?y)"
    by (rule example_failure) simp
  have l4: "js_length (''An error occurred: '' @ exn_message ?err) \<le> 4096"
    by (simp add: length_eval)
  from t4 [THEN conjunct2, THEN conjunct2, THEN conjunct1, rule_format, OF conjI [OF p4 l4]]
  have "interactionCreate ?down example_bot ban_invocation =
      (None, reply_ephemeral (after_call example_bot session_client (requested ?y))
         (error_notice (''An error occurred: '' @ exn_message ?err)))"
    by (rule conjunct1)
  then have fourth: "last_embed (snd (interactionCreate ?down example_bot ban_invocation))
          = Some (error_notice ''An error occurred: KeyAuth API request failed: down'')"
    by (simp add: last_embed_reply)
  from h1 h2 h3 h4 first ban_invocation_reached(3) second stats_invocation_reached(3) third fourth
  show ?thesis
    unfolding Let_def by simp
qed

subsection \<open>The notifications of \<^verbatim>\<open>user\<close> and \<^verbatim>\<open>stats\<close>\<close>

text \<open>
  When building an embed inside the \<^verbatim>\<open>try\<close> block is refused, the \<^verbatim>\<open>catch\<close> block
  replies with the builder's message.
\<close>

lemma refused_then_caught:
  "reply_with b True
     (createEmbed (cross_mark @ '' Error'')
        (''An error occurred: '' @ exn_message validation_error) 0xFF0000)
   = (None, reply_ephemeral b (error_notice ''An error occurred: Received one or more errors''))"
proof -
  have v: "valid_text 4096 (''An error occurred: '' @ exn_message validation_error)"
    by (simp add: validation_error_def valid_constant_texts)
  from caught[OF v] show ?thesis by (simp add: validation_error_def)
qed

text \<open>
  A lookup that returned \<^verbatim>\<open>success = true\<close> with its \<^verbatim>\<open>info\<close> is answered with the
  error notification, never with the data: the embed of the data has the empty
  description.
\<close>

lemma lookup_with_info_refused:
  assumes "isChatInputCommand i" and "isAdmin b (user_id i)"
    and "dispatched i = Some x" and "\<not> is_action x"
    and "perform h (keyAuth b) (net b) x = (Inr result, c1, w1)"
    and "succeeded result \<and> truthy (info result)"
  shows "interactionCreate h b i =
           (None, reply_ephemeral (after_call b c1 w1)
                    (error_notice ''An error occurred: Received one or more errors''))"
  unfolding interactionCreate_reached[OF assms(1-3)] conclude_returned[OF assms(5)]
    shown_lookup_refused[OF assms(4,3,6)]
  using refused_then_caught by simp







text \<open>
  \<^bold>\<open>C8 at a failing input.\<close> The user lookup of \<^verbatim>\<open>alice\<close> by an admin, answered with
  \<^verbatim>\<open>success = true\<close> and an \<^verbatim>\<open>info\<close> holding the username \<^verbatim>\<open>alice\<close> and the address
  \<^verbatim>\<open>1.2.3.4\<close>. The embed of the data is created with the empty description, which the
  builder refuses before any field is added; the \<^verbatim>\<open>catch\<close> block replies with the error
  notification carrying the builder's message. That notification, the only reply, has no
  field.
\<close>

theorem user_lookup_refused:
  "isChatInputCommand user_invocation \<and> isAdmin example_bot (user_id user_invocation)
   \<and> dispatched user_invocation = Some (GetUserInfo ''alice'')
   \<and> fst (perform alice_host (keyAuth example_bot) (net example_bot) (GetUserInfo ''alice''))
       = Inr alice_found
   \<and> success alice_found = Some True \<and> info alice_found = Some alice_info
   \<and> get_prop alice_info ''username'' = Some (JStr ''alice'')
   \<and> get_prop alice_info ''ip'' = Some (JStr ''1.2.3.4'')
   \<and> createEmbed (bust_mark @ '' User: '' @ ''alice'') [] default_color = Inl validation_error
   \<and> user_embed alice_host ''alice'' alice_info = Inl validation_error
   \<and> fst (interactionCreate alice_host example_bot user_invocation) = None
   \<and> replies (snd (interactionCreate alice_host example_bot user_invocation)) =
       [\<lparr>embeds = [error_notice ''An error occurred: Received one or more errors''],
         ephemeral = True\<rparr>]
   \<and> negative (error_notice ''An error occurred: Received one or more errors'')
   \<and> embed_fields (error_notice ''An error occurred: Received one or more errors'') = []
   \<and> field_named (error_notice ''An error occurred: Received one or more errors'') ''Username''
       = None"
proof -
  let ?x = "GetUserInfo ''alice''"
  have p: "perform alice_host (keyAuth example_bot) (net example_bot) ?x
      = (Inr alice_found, session_client, requested ?x)"
    unfolding alice_host_def by (rule example_perform)
  have q: "fst (perform alice_host (keyAuth example_bot) (net example_bot) ?x) = Inr alice_found"
    unfolding p by simp
  have r: "success alice_found = Some True \<and> info alice_found = Some alice_info"
    by (simp add: alice_found_def)
  have k: "get_prop alice_info ''username'' = Some (JStr ''alice'')
      \<and> get_prop alice_info ''ip'' = Some (JStr ''1.2.3.4'')"
    by (simp add: alice_info_def)
  have s: "succeeded alice_found \<and> truthy (info alice_found)"
    by (simp add: succeeded_def alice_found_def alice_info_def)
  have g: "\<not> is_action ?x" by simp
  note i = lookup_with_info_refused[OF user_invocation_reached g p s]
  have f: "fst (interactionCreate alice_host example_bot user_invocation) = None"
    unfolding i by simp
  have l: "replies (snd (interactionCreate alice_host example_bot user_invocation)) =
       [\<lparr>embeds = [error_notice ''An error occurred: Received one or more errors''],
         ephemeral = True\<rparr>]"
    unfolding i by (simp add: replies_reply after_call_def example_bot_def)
  have e: "embed_fields (error_notice ''An error occurred: Received one or more errors'') = []"
    by (simp add: error_notice_def embed_of_def)
  have n: "field_named (error_notice ''An error occurred: Received one or more errors'')
       ''Username'' = None"
    by (simp add: field_named_def e)
  from user_invocation_reached q r k createEmbed_empty user_embed_refused f l
    negative_error_notice e n
  show ?thesis by simp
qed

subsection \<open>Blank arguments\<close>

text \<open>
  The cases that trim their text options reject a blank one with an ephemeral error and
  without calling the client: \<^verbatim>\<open>user\<close>, \<^verbatim>\<open>ban\<close>, \<^verbatim>\<open>unban\<close>, \<^verbatim>\<open>deleteuser\<close>,
  \<^verbatim>\<open>resethwid\<close>, \<^verbatim>\<open>uselicense\<close> and \<^verbatim>\<open>extendsub\<close>.
\<close>

lemma blank_username_rejected:
  assumes "isChatInputCommand i" and "isAdmin b (user_id i)"
    and "commandName i \<in> {''user'', ''ban'', ''unban'', ''deleteuser'', ''resethwid''}"
    and "string_of i ''username'' = Some s" and "trim s = []"
  shows "interactionCreate h b i
           = (None, reply_ephemeral b (error_notice ''Username cannot be empty''))"
proof -
  note g = string_ofD[OF assms(4)]
  note e = error_notice_built[OF valid_constant_texts(1)]
  have "switch_command h b i =
          (None, reply_ephemeral b (error_notice ''Username cannot be empty''))"
  proof -
    from assms(3) consider "commandName i = ''user''" | "commandName i = ''ban''"
      | "commandName i = ''unban''" | "commandName i = ''deleteuser''"
      | "commandName i = ''resethwid''"
      by blast
    then show ?thesis
    proof cases
      case 1
      then show ?thesis
        by (simp add: switch_command_def case_user_def g assms(5) e reply_with_simps)
    next
      case 2
      then show ?thesis
        by (simp add: switch_command_def case_ban_def g assms(5) e reply_with_simps)
    next
      case 3
      then show ?thesis
        by (simp add: switch_command_def case_unban_def g assms(5) e reply_with_simps)
    next
      case 4
      then show ?thesis
        by (simp add: switch_command_def case_deleteuser_def g assms(5) e reply_with_simps)
    next
      case 5
      then show ?thesis
        by (simp add: switch_command_def case_resethwid_def g assms(5) e reply_with_simps)
    qed
  qed
  with assms(1,2) show ?thesis
    by (simp add: interactionCreate_def)
qed

lemma blank_uselicense_rejected:
  assumes "isChatInputCommand i" and "isAdmin b (user_id i)"
    and "commandName i = ''uselicense''"
    and "string_of i ''license'' = Some s1" and "string_of i ''username'' = Some s2"
    and "trim s1 = [] \<or> trim s2 = []"
  shows "interactionCreate h b i =
           (None, reply_ephemeral b (error_notice ''License and username cannot be empty''))"
  using assms(1-3,6) string_ofD[OF assms(4)] string_ofD[OF assms(5)]
    error_notice_built[OF valid_constant_texts(2)]
  by (auto simp: interactionCreate_def switch_command_def case_uselicense_def reply_with_simps)

lemma blank_extendsub_rejected:
  assumes "isChatInputCommand i" and "isAdmin b (user_id i)"
    and "commandName i = ''extendsub''"
    and "string_of i ''username'' = Some s1" and "string_of i ''subscription'' = Some s2"
    and "integer_of i ''days'' = Some d"
    and "trim s1 = [] \<or> trim s2 = []"
  shows "interactionCreate h b i =
           (None, reply_ephemeral b (error_notice ''Username and subscription cannot be empty''))"
  using assms(1-3,7) string_ofD[OF assms(4)] string_ofD[OF assms(5)] integer_ofD[OF assms(6)]
    error_notice_built[OF valid_constant_texts(3)]
  by (auto simp: interactionCreate_def switch_command_def case_extendsub_def reply_with_simps)

text \<open>
  \<^bold>\<open>C2 at a failing input.\<close> \<^verbatim>\<open>createlicense\<close> neither trims nor checks its license:
  with a license of three spaces and 30 days from an admin, the client is called, the request
  \<^verbatim>\<open>add\<close> with that key is sent after the init request, and the reply is the positive
  \<^emph>\<open>License Created\<close>.
\<close>

theorem blank_license_reaches_upstream:
  "isChatInputCommand blank_license_invocation
   \<and> isAdmin example_bot (user_id blank_license_invocation)
   \<and> commandName blank_license_invocation = ''createlicense''
   \<and> string_of blank_license_invocation ''license'' = Some ''   '' \<and> trim ''   '' = []
   \<and> fst (interactionCreate bare_host example_bot blank_license_invocation) = None
   \<and> sent (net (snd (interactionCreate bare_host example_bot blank_license_invocation))) =
       [init_request (config example_client),
        api_request (example_client\<lparr>sessionId := Some ''S1''\<rparr>) ''S1'' ''add''
          [''key'' \<mapsto> ''   '', ''days'' \<mapsto> ''30'']]
   \<and> replies (snd (interactionCreate bare_host example_bot blank_license_invocation)) =
       [\<lparr>embeds = [embed_of (check_mark @ '' License Created'')
                     ''License     created for 30 days.'' 0x00FF00],
         ephemeral = False\<rparr>]
   \<and> positive (embed_of (check_mark @ '' License Created'')
                 ''License     created for 30 days.'' 0x00FF00)"
proof -
  let ?x = "CreateLicense ''   '' 30"
  let ?e = "embed_of (check_mark @ '' License Created'') ''License     created for 30 days.''
              0x00FF00"
  have h1: "isChatInputCommand blank_license_invocation"
    by (simp add: blank_license_invocation_def invocation_def)
  have h2: "isAdmin example_bot (user_id blank_license_invocation)"
    by (simp add: blank_license_invocation_def invocation_def example_bot_def isAdmin_def)
  have h3: "commandName blank_license_invocation = ''createlicense''"
    by (simp add: blank_license_invocation_def invocation_def)
  have s: "string_of blank_license_invocation ''license'' = Some ''   ''"
    by (simp add: string_of_def getString_def blank_license_invocation_def invocation_def)
  have t: "trim ''   '' = []"
    by (simp add: trim_defs)
  have d: "dispatched blank_license_invocation = Some ?x"
    by (simp add: dispatched_def string_of_def integer_of_def getString_def getInteger_def
        blank_license_invocation_def invocation_def)
  have p: "perform bare_host (keyAuth example_bot) (net example_bot) ?x =
     (Inr bare_success, session_client, requested ?x)"
    unfolding bare_host_def by (rule example_perform)
  have a: "action_text ?x bare_success = ''License     created for 30 days.''"
    by (simp add: action_text_def or_else_def succeeded_def bare_success_def thirty)
  have v: "valid_text 4096 (action_text ?x bare_success)"
    unfolding a by (simp add: valid_text_def length_eval)
  have g: "is_action ?x" by simp
  have i: "interactionCreate bare_host example_bot blank_license_invocation =
      (None, reply_public (answered ?x) ?e)"
    unfolding interactionCreate_reached[OF h1 h2 d] conclude_returned[OF p]
      shown_action_valid[OF g v] a answered_def
    by (simp add: action_title_def action_color_def succeeded_def bare_success_def)
  have f: "fst (interactionCreate bare_host example_bot blank_license_invocation) = None"
    unfolding i by simp
  have r: "sent (net (snd (interactionCreate bare_host example_bot blank_license_invocation))) =
       [init_request (config example_client),
        api_request (example_client\<lparr>sessionId := Some ''S1''\<rparr>) ''S1'' ''add''
          [''key'' \<mapsto> ''   '', ''days'' \<mapsto> ''30'']]"
    unfolding i
    by (simp add: replies_reply answered_def after_call_def requested_def session_client_def
        thirty)
  have e: "replies (snd (interactionCreate bare_host example_bot blank_license_invocation)) =
       [\<lparr>embeds = [?e], ephemeral = False\<rparr>]"
    unfolding i by (simp add: replies_reply replies_answered)
  have po: "positive ?e"
    by (simp add: positive_def embed_of_def check_mark_def cross_mark_def)
  from h1 h2 h3 s t f r e po show ?thesis by simp
qed

end
